theory Spec2Isabelle
  imports Main
begin

section \<open>The VM provisioning transaction of \<^verbatim>\<open>src/virtual_environment.py\<close>\<close>

text \<open>
  The module creates a virtual machine and the network resources it depends on through the
  cloud SDK, and deletes what it has created when one of the calls raises. The SDK, the file
  system and the credential chain are outside the program: they are parameters of the model
  (the record \<open>env\<close>), and every answer they can give, also an exception, is a value.
  What the program does to the outside world is the list of events it leaves behind: the SDK
  calls with their outcomes and the lines it prints.
\<close>

subsection \<open>Values\<close>

text \<open>The object a finished SDK operation returns; the program only reads its \<open>id\<close>.\<close>

datatype resource_obj = ResourceObj (obj_id: string)

text \<open>The Python values that reach \<open>created_resources\<close> and the return value.\<close>

datatype pyval = PStr string | PObj resource_obj | PNone

text \<open>
  Exceptions, all of them subclasses of Python's \<open>Exception\<close>: a missing dictionary key,
  indexing a string by a key, a file that cannot be opened, an error of the SDK (code and
  message).
\<close>

datatype error =
    KeyError string
  | TypeError
  | OSError string
  | ProviderError string string

text \<open>
  The parameter dictionaries and SDK model objects handed to \<open>create_or_update\<close>. The
  strings the program only passes on are kept as they are (\<open>S\<close>); the text it reads from the
  key file, which it strips character by character, is a list of Unicode code points (\<open>U\<close>).
\<close>

datatype param =
    S string
  | U "nat list"
  | I int
  | B bool
  | L "param list"
  | D "(string \<times> param) list"

subsection \<open>Configuration\<close>

text \<open>
  The configuration is the dictionary read from the JSON file: top-level entries are strings
  or sections, and the entries of a section are strings. A dictionary is written as an
  association list read with \<open>map_of\<close>.
\<close>

datatype cfgval = Leaf string | Section "(string \<times> string) list"

type_synonym config = "(string \<times> cfgval) list"

definition bindE :: "error + 'a \<Rightarrow> ('a \<Rightarrow> error + 'b) \<Rightarrow> error + 'b" where
  "bindE m f = (case m of Inl e \<Rightarrow> Inl e | Inr x \<Rightarrow> f x)"

text \<open>\<open>cfg[k]\<close>\<close>

definition getitem :: "config \<Rightarrow> string \<Rightarrow> error + cfgval" where
  "getitem cfg k = (case map_of cfg k of None \<Rightarrow> Inl (KeyError k) | Some v \<Rightarrow> Inr v)"

text \<open>\<open>v[k]\<close> for a value taken from the configuration\<close>

definition subitem :: "cfgval \<Rightarrow> string \<Rightarrow> error + string" where
  "subitem v k =
     (case v of
        Leaf _ \<Rightarrow> Inl TypeError
      | Section kvs \<Rightarrow> (case map_of kvs k of None \<Rightarrow> Inl (KeyError k) | Some s \<Rightarrow> Inr s))"

text \<open>\<open>cfg[a][b]\<close>\<close>

definition getitem2 :: "config \<Rightarrow> string \<Rightarrow> string \<Rightarrow> error + string" where
  "getitem2 cfg a b = bindE (getitem cfg a) (\<lambda>v. subitem v b)"

text \<open>The local variables that lines 23 to 34 of \<open>create_vm\<close> bind.\<close>

record request =
  subscription_id :: cfgval
  resource_group :: string
  location :: string
  vm_name :: string
  vm_size :: string
  admin_username :: string
  ssh_key_path :: string
  virtual_network :: string
  sub_network :: string
  network_security_grp :: string
  public_ip :: string
  network_interface :: string

subsection \<open>The outside world\<close>

datatype api =
    ResourceGroups
  | VirtualNetworks
  | Subnets
  | NetworkSecurityGroups
  | PublicIpAddresses
  | NetworkInterfaces
  | VirtualMachines

text \<open>One constructor for each \<open>print\<close> of the module, with the values it interpolates.\<close>

datatype msg =
    MsgStarting string string
  | MsgEnsuringRG string
  | MsgCreatingVNet
  | MsgCreatingSubnet
  | MsgCreatingNSG
  | MsgCreatingPublicIP
  | MsgCreatingNIC
  | MsgDefiningVM
  | MsgCreatingVM string
  | MsgCreated string string
  | MsgError error
  | MsgRollingBack
  | MsgDeleting string pyval
  | MsgFailedDelete string pyval error
  | MsgRollbackComplete

text \<open>
  \<open>Create a args props r\<close>: the call \<open>create_or_update\<close> (for the resource group) or
  \<open>begin_create_or_update(...).result()\<close> on the operation group \<open>a\<close>, with the
  positional names \<open>args\<close> and the parameters \<open>props\<close>; \<open>r\<close> is what it raised or
  returned. \<open>Delete a rg name r\<close>: the call \<open>begin_delete(rg, name).result()\<close>, with the
  exception it raised, if any.
\<close>

datatype event =
    Create api "string list" param "error + resource_obj"
  | Delete api string pyval "error option"
  | Print msg

text \<open>
  The SDK answers a call as a function of everything that has happened so far. The clients
  are built from the subscription identifier; \<open>expanduser\<close> and the file system are those
  of the machine the program runs on, and reading a file gives its decoded text.

  \<open>ip_configuration\<close> is the constructor of the SDK class \<open>IPConfiguration\<close>, which is not
  part of this program: given the keyword arguments, it returns the object it builds from
  them or raises. What it does with a keyword the class does not declare (keep it, drop it,
  raise) is the SDK's affair, and differs between its versions.
\<close>

record env =
  make_clients :: "cfgval \<Rightarrow> error option"
  expanduser :: "string \<Rightarrow> string"
  read_file :: "string \<Rightarrow> error + nat list"
  ip_configuration :: "(string \<times> param) list \<Rightarrow> error + param"
  create_or_update :: "event list \<Rightarrow> api \<Rightarrow> string list \<Rightarrow> param \<Rightarrow> error + resource_obj"
  begin_delete :: "event list \<Rightarrow> api \<Rightarrow> string \<Rightarrow> pyval \<Rightarrow> error option"

definition invoke_create ::
  "env \<Rightarrow> api \<Rightarrow> string list \<Rightarrow> param \<Rightarrow> event list \<Rightarrow> (error + resource_obj) \<times> event list" where
  "invoke_create e a args props tr =
     (let r = create_or_update e tr a args props in (r, tr @ [Create a args props r]))"

subsection \<open>Reading the configuration (lines 23 to 34)\<close>

definition read_cfg :: "env \<Rightarrow> config \<Rightarrow> error + request" where
  "read_cfg e cfg =
     bindE (getitem cfg ''subscription_id'') (\<lambda>sid.
     bindE (getitem2 cfg ''resource_group'' ''name'') (\<lambda>rg.
     bindE (getitem2 cfg ''resource_group'' ''location'') (\<lambda>loc.
     bindE (getitem2 cfg ''vm'' ''name'') (\<lambda>vmn.
     bindE (getitem2 cfg ''vm'' ''size'') (\<lambda>vms.
     bindE (getitem2 cfg ''vm'' ''admin_username'') (\<lambda>adm.
     bindE (getitem2 cfg ''vm'' ''ssh_public_key_path'') (\<lambda>keyp.
     bindE (getitem2 cfg ''vm'' ''virtual_network'') (\<lambda>vnet.
     bindE (getitem2 cfg ''vm'' ''sub_network'') (\<lambda>subn.
     bindE (getitem2 cfg ''vm'' ''network_security_grp'') (\<lambda>nsg.
     bindE (getitem2 cfg ''vm'' ''public_ip'') (\<lambda>pip.
     bindE (getitem2 cfg ''vm'' ''network_interface'') (\<lambda>nic.
       Inr \<lparr> subscription_id = sid, resource_group = rg, location = loc, vm_name = vmn,
             vm_size = vms, admin_username = adm, ssh_key_path = expanduser e keyp,
             virtual_network = vnet, sub_network = subn, network_security_grp = nsg,
             public_ip = pip, network_interface = nic \<rparr>))))))))))))"

subsection \<open>The parameters of each call\<close>

definition rg_params :: "request \<Rightarrow> param" where
  "rg_params r = D [(''location'', S (location r))]"

definition vnet_params :: "request \<Rightarrow> param" where
  "vnet_params r =
     D [(''location'', S (location r)),
        (''address_space'', D [(''address_prefixes'', L [S ''10.0.0.0/16''])])]"

definition subnet_params :: param where
  "subnet_params = D [(''address_prefix'', S ''10.0.0.0/24'')]"

definition nsg_params :: "request \<Rightarrow> param" where
  "nsg_params r =
     D [(''location'', S (location r)),
        (''security_rules'',
           L [D [(''name'', S ''AllowSSH''), (''protocol'', S ''Tcp''),
                 (''direction'', S ''Inbound''), (''access'', S ''Allow''),
                 (''priority'', I 1000), (''source_address_prefix'', S ''*''),
                 (''destination_address_prefix'', S ''*''), (''source_port_range'', S ''*''),
                 (''destination_port_range'', S ''22'')]])]"

definition pip_params :: "request \<Rightarrow> param" where
  "pip_params r =
     D [(''location'', S (location r)), (''public_ip_allocation_method'', S ''Dynamic'')]"

text \<open>
  The keyword arguments lines 103 to 108 give to \<open>IPConfiguration\<close>, and the parameters of
  the network interface around the object it returns.
\<close>

definition ip_configuration_kwargs ::
  "resource_obj \<Rightarrow> resource_obj \<Rightarrow> resource_obj \<Rightarrow> (string \<times> param) list" where
  "ip_configuration_kwargs subnet pip nsg =
     [(''name'', S ''ipconfig1''),
      (''subnet'', D [(''id'', S (obj_id subnet))]),
      (''public_ip_address'', D [(''id'', S (obj_id pip))]),
      (''network_security_group'', D [(''id'', S (obj_id nsg))])]"

definition nic_params :: "request \<Rightarrow> param \<Rightarrow> param" where
  "nic_params r ip_config =
     D [(''location'', S (location r)), (''ip_configurations'', L [ip_config])]"

text \<open>
  \<open>str.strip()\<close> removes the leading and trailing white space of a text. The characters
  Python counts as white space, by code point: U+0009 to U+000D, U+001C to U+0020, U+0085,
  U+00A0, U+1680, U+2000 to U+200A, U+2028, U+2029, U+202F, U+205F and U+3000.
\<close>

definition is_space :: "nat \<Rightarrow> bool" where
  "is_space c \<longleftrightarrow>
     (9 \<le> c \<and> c \<le> 13) \<or> (28 \<le> c \<and> c \<le> 32) \<or> c = 133 \<or> c = 160 \<or> c = 5760 \<or>
     (8192 \<le> c \<and> c \<le> 8202) \<or> c = 8232 \<or> c = 8233 \<or> c = 8239 \<or> c = 8287 \<or> c = 12288"

definition strip :: "nat list \<Rightarrow> nat list" where
  "strip s = rev (dropWhile is_space (rev (dropWhile is_space s)))"

definition vm_parameters :: "request \<Rightarrow> nat list \<Rightarrow> resource_obj \<Rightarrow> param" where
  "vm_parameters r ssh_key_data nic =
     D [(''location'', S (location r)),
        (''hardware_profile'', D [(''vm_size'', S (vm_size r))]),
        (''storage_profile'',
           D [(''image_reference'',
                 D [(''publisher'', S ''Canonical''), (''offer'', S ''UbuntuServer''),
                    (''sku'', S ''22_04-lts-gen2''), (''version'', S ''latest'')]),
              (''os_disk'',
                 D [(''create_option'', S ''FromImage''),
                    (''managed_disk'', D [(''storage_account_type'', S ''StandardSSD_LRS'')])])]),
        (''os_profile'',
           D [(''computer_name'', S (vm_name r)),
              (''admin_username'', S (admin_username r)),
              (''linux_configuration'',
                 D [(''disable_password_authentication'', B True),
                    (''ssh'',
                       D [(''public_keys'',
                             L [D [(''path'',
                                      S (''/home/'' @ admin_username r @ ''/.ssh/authorized_keys'')),
                                   (''key_data'', U ssh_key_data)]])])])]),
        (''network_profile'',
           D [(''network_interfaces'', L [D [(''id'', S (obj_id nic))]])])]"

subsection \<open>\<open>rollback_resources\<close>\<close>

text \<open>
  One delete call inside the loop's \<open>try\<close>: an exception is caught by
  \<open>except Exception\<close>, which prints it; the loop goes on either way.
\<close>

definition try_delete :: "env \<Rightarrow> api \<Rightarrow> string \<Rightarrow> string \<Rightarrow> pyval \<Rightarrow> event list \<Rightarrow> event list" where
  "try_delete e a rg_name rtype name tr =
     (case begin_delete e tr a rg_name name of
        None \<Rightarrow> tr @ [Delete a rg_name name None]
      | Some ex \<Rightarrow> tr @ [Delete a rg_name name (Some ex), Print (MsgFailedDelete rtype name ex)])"

text \<open>The body of the loop for one entry \<open>(rtype, name)\<close>.\<close>

definition rollback_one :: "env \<Rightarrow> string \<Rightarrow> string \<times> pyval \<Rightarrow> event list \<Rightarrow> event list" where
  "rollback_one e rg_name entry tr0 =
     (let rtype = fst entry; name = snd entry;
          tr = tr0 @ [Print (MsgDeleting rtype name)]
      in if rtype = ''vm'' then try_delete e VirtualMachines rg_name rtype name tr
         else if rtype = ''nic'' then try_delete e NetworkInterfaces rg_name rtype name tr
         else if rtype = ''public_ip'' then try_delete e PublicIpAddresses rg_name rtype name tr
         else if rtype = ''nsg'' then try_delete e NetworkSecurityGroups rg_name rtype name tr
         else if rtype = ''subnet'' then tr
         else if rtype = ''vnet'' then try_delete e VirtualNetworks rg_name rtype name tr
         else tr)"

fun rollback_loop :: "env \<Rightarrow> string \<Rightarrow> (string \<times> pyval) list \<Rightarrow> event list \<Rightarrow> event list" where
  "rollback_loop e rg_name [] tr = tr"
| "rollback_loop e rg_name (entry # rest) tr =
     rollback_loop e rg_name rest (rollback_one e rg_name entry tr)"

text \<open>The function has no \<open>return\<close>: its value is \<open>None\<close>.\<close>

definition rollback_resources ::
  "env \<Rightarrow> string \<Rightarrow> (string \<times> pyval) list \<Rightarrow> event list \<Rightarrow> pyval \<times> event list" where
  "rollback_resources e rg_name created_resources tr =
     (PNone, rollback_loop e rg_name (rev created_resources) tr @ [Print MsgRollbackComplete])"

subsection \<open>\<open>create_vm\<close>\<close>

text \<open>
  The body of the \<open>try\<close> (lines 45 to 161). It ends with the exception that left it, if
  any, the list \<open>created_resources\<close> as it stands at that moment, and the events so far.
\<close>

definition create_vm_try ::
  "env \<Rightarrow> request \<Rightarrow> event list \<Rightarrow> error option \<times> (string \<times> pyval) list \<times> event list" where
  "create_vm_try e r tr0 =
     (let created = [] in
      case invoke_create e ResourceGroups [resource_group r] (rg_params r)
             (tr0 @ [Print (MsgEnsuringRG (resource_group r))]) of
        (Inl ex, tr) \<Rightarrow> (Some ex, created, tr)
      | (Inr _, tr) \<Rightarrow>
     (case invoke_create e VirtualNetworks [resource_group r, virtual_network r] (vnet_params r)
             (tr @ [Print MsgCreatingVNet]) of
        (Inl ex, tr) \<Rightarrow> (Some ex, created, tr)
      | (Inr vnet, tr) \<Rightarrow>
      let created = created @ [(''vnet'', PStr (virtual_network r))] in
     (case invoke_create e Subnets [resource_group r, virtual_network r, sub_network r]
             subnet_params (tr @ [Print MsgCreatingSubnet]) of
        (Inl ex, tr) \<Rightarrow> (Some ex, created, tr)
      | (Inr subnet, tr) \<Rightarrow>
      let created = created @ [(''subnet'', PStr (sub_network r))] in
     (case invoke_create e NetworkSecurityGroups [resource_group r, network_security_grp r]
             (nsg_params r) (tr @ [Print MsgCreatingNSG]) of
        (Inl ex, tr) \<Rightarrow> (Some ex, created, tr)
      | (Inr nsg, tr) \<Rightarrow>
      let created = created @ [(''nsg'', PStr (network_security_grp r))] in
     (case invoke_create e PublicIpAddresses [resource_group r, public_ip r] (pip_params r)
             (tr @ [Print MsgCreatingPublicIP]) of
        (Inl ex, tr) \<Rightarrow> (Some ex, created, tr)
      | (Inr public_ip_obj, tr) \<Rightarrow>
      \<comment> \<open>line 90 rebinds the variable \<open>public_ip\<close> to the returned object, and line 94
          appends that variable\<close>
      let created = created @ [(''public_ip'', PObj public_ip_obj)];
          tr = tr @ [Print MsgCreatingNIC] in
      \<comment> \<open>the arguments of the call are evaluated first, the \<open>IPConfiguration\<close> among them\<close>
     (case ip_configuration e (ip_configuration_kwargs subnet public_ip_obj nsg) of
        Inl ex \<Rightarrow> (Some ex, created, tr)
      | Inr ip_config \<Rightarrow>
     (case invoke_create e NetworkInterfaces [resource_group r, network_interface r]
             (nic_params r ip_config) tr of
        (Inl ex, tr) \<Rightarrow> (Some ex, created, tr)
      | (Inr nic, tr) \<Rightarrow>
      let created = created @ [(''nic'', PStr (network_interface r))];
          tr = tr @ [Print MsgDefiningVM] in
     (case read_file e (ssh_key_path r) of
        Inl ex \<Rightarrow> (Some ex, created, tr)
      | Inr contents \<Rightarrow>
      let ssh_key_data = strip contents in
     (case invoke_create e VirtualMachines [resource_group r, vm_name r]
             (vm_parameters r ssh_key_data nic) (tr @ [Print (MsgCreatingVM (vm_name r))]) of
        (Inl ex, tr) \<Rightarrow> (Some ex, created, tr)
      | (Inr _, tr) \<Rightarrow>
      let created = created @ [(''vm'', PStr (vm_name r))] in
        (None, created, tr @ [Print (MsgCreated (vm_name r) (location r))]))))))))))"

text \<open>
  The \<open>try\<close> with its handler (lines 36 to 170): on an exception the handler prints it,
  rolls back and re-raises it with a bare \<open>raise\<close>.
\<close>

definition provision :: "env \<Rightarrow> request \<Rightarrow> (error + pyval) \<times> event list" where
  "provision e r =
     (let tr = [Print (MsgStarting (vm_name r) (location r))] in
      case make_clients e (subscription_id r) of
        Some ex \<Rightarrow> (Inl ex, tr)
      | None \<Rightarrow>
         (case create_vm_try e r tr of
            (None, created, tr) \<Rightarrow> (Inr PNone, tr)
          | (Some ex, created, tr) \<Rightarrow>
              (Inl ex,
               snd (rollback_resources e (resource_group r) created
                      (tr @ [Print (MsgError ex), Print MsgRollingBack])))))"

text \<open>The whole function: what it raises or returns, and the events it leaves.\<close>

definition create_vm :: "env \<Rightarrow> config \<Rightarrow> (error + pyval) \<times> event list" where
  "create_vm e cfg =
     (case read_cfg e cfg of
        Inl ex \<Rightarrow> (Inl ex, [])
      | Inr r \<Rightarrow> provision e r)"

subsection \<open>Reading a run\<close>

text \<open>
  The six steps in the order of the source, by the tag \<open>create_vm\<close> appends to
  \<open>created_resources\<close> and by the operation group it calls.
\<close>

definition step_kinds :: "string list" where
  "step_kinds = [''vnet'', ''subnet'', ''nsg'', ''public_ip'', ''nic'', ''vm'']"

definition step_apis :: "api list" where
  "step_apis =
     [VirtualNetworks, Subnets, NetworkSecurityGroups, PublicIpAddresses, NetworkInterfaces,
      VirtualMachines]"


text \<open>The operation group \<open>rollback_resources\<close> calls for a tag, if it calls one.\<close>

definition rtype_api :: "string \<Rightarrow> api option" where
  "rtype_api rtype =
     (if rtype = ''vm'' then Some VirtualMachines
      else if rtype = ''nic'' then Some NetworkInterfaces
      else if rtype = ''public_ip'' then Some PublicIpAddresses
      else if rtype = ''nsg'' then Some NetworkSecurityGroups
      else if rtype = ''vnet'' then Some VirtualNetworks
      else None)"

text \<open>The first creation call of a run that raised: its operation group and the exception.\<close>

fun failed_create :: "event list \<Rightarrow> (api \<times> error) option" where
  "failed_create [] = None"
| "failed_create (ev # tr) =
     (case ev of
        Create a _ _ (Inl ex) \<Rightarrow> Some (a, ex)
      | _ \<Rightarrow> failed_create tr)"

text \<open>The creation calls of a run, and those that returned, in the order they were made.\<close>

fun create_calls :: "event list \<Rightarrow> (api \<times> string list \<times> param) list" where
  "create_calls [] = []"
| "create_calls (ev # tr) =
     (case ev of
        Create a args props _ \<Rightarrow> (a, args, props) # create_calls tr
      | _ \<Rightarrow> create_calls tr)"

fun succeeded :: "event list \<Rightarrow> (api \<times> resource_obj) list" where
  "succeeded [] = []"
| "succeeded (ev # tr) =
     (case ev of
        Create a _ _ (Inr obj) \<Rightarrow> (a, obj) # succeeded tr
      | _ \<Rightarrow> succeeded tr)"

text \<open>The delete calls of a run, in the order they were made, and those that raised.\<close>

fun delete_calls :: "event list \<Rightarrow> (api \<times> string \<times> pyval) list" where
  "delete_calls [] = []"
| "delete_calls (ev # tr) =
     (case ev of
        Delete a rg name _ \<Rightarrow> (a, rg, name) # delete_calls tr
      | _ \<Rightarrow> delete_calls tr)"

fun failed_deletes :: "event list \<Rightarrow> (api \<times> pyval \<times> error) list" where
  "failed_deletes [] = []"
| "failed_deletes (ev # tr) =
     (case ev of
        Delete a _ name (Some ex) \<Rightarrow> (a, name, ex) # failed_deletes tr
      | _ \<Rightarrow> failed_deletes tr)"

text \<open>What the rollback prints: the entries it goes through, and the failures it reports.\<close>

fun deleting_lines :: "event list \<Rightarrow> (string \<times> pyval) list" where
  "deleting_lines [] = []"
| "deleting_lines (ev # tr) =
     (case ev of
        Print (MsgDeleting rtype name) \<Rightarrow> (rtype, name) # deleting_lines tr
      | _ \<Rightarrow> deleting_lines tr)"

fun failure_lines :: "event list \<Rightarrow> (string \<times> pyval \<times> error) list" where
  "failure_lines [] = []"
| "failure_lines (ev # tr) =
     (case ev of
        Print (MsgFailedDelete rtype name ex) \<Rightarrow> (rtype, name, ex) # failure_lines tr
      | _ \<Rightarrow> failure_lines tr)"

text \<open>The delete calls a list of entries asks for: one for each entry with a deletable tag.\<close>

fun expected_deletes :: "string \<Rightarrow> (string \<times> pyval) list \<Rightarrow> (api \<times> string \<times> pyval) list" where
  "expected_deletes rg_name [] = []"
| "expected_deletes rg_name (entry # rest) =
     (case rtype_api (fst entry) of
        None \<Rightarrow> expected_deletes rg_name rest
      | Some a \<Rightarrow> (a, rg_name, snd entry) # expected_deletes rg_name rest)"

text \<open>A stretch of events without any creation call.\<close>

definition quiet :: "event list \<Rightarrow> bool" where
  "quiet evs \<longleftrightarrow> failed_create evs = None \<and> create_calls evs = [] \<and> succeeded evs = []"

text \<open>
  A printed failure and a failed delete call are about the same deletion when they agree on
  the operation group, the name and the exception.
\<close>

definition line_key :: "string \<times> pyval \<times> error \<Rightarrow> api option \<times> pyval \<times> error" where
  "line_key l = (rtype_api (fst l), snd l)"

definition call_key :: "api \<times> pyval \<times> error \<Rightarrow> api option \<times> pyval \<times> error" where
  "call_key c = (Some (fst c), snd c)"

text \<open>The identifier a value carries, and the one the outcome of \<open>create_vm\<close> carries.\<close>

definition pyval_id :: "pyval \<Rightarrow> string option" where
  "pyval_id v = (case v of PStr s \<Rightarrow> Some s | PObj obj \<Rightarrow> Some (obj_id obj) | PNone \<Rightarrow> None)"

definition returned_id :: "error + pyval \<Rightarrow> string option" where
  "returned_id res = (case res of Inl _ \<Rightarrow> None | Inr v \<Rightarrow> pyval_id v)"

text \<open>The identifier of the object the first successful creation on \<open>a\<close> returned.\<close>

definition created_obj :: "api \<Rightarrow> event list \<Rightarrow> resource_obj option" where
  "created_obj a tr = map_of (succeeded tr) a"

definition created_id :: "api \<Rightarrow> event list \<Rightarrow> string option" where
  "created_id a tr = map_option obj_id (created_obj a tr)"

text \<open>The names and parameters of the first creation call on \<open>a\<close>.\<close>

definition create_call :: "api \<Rightarrow> event list \<Rightarrow> (string list \<times> param) option" where
  "create_call a tr = map_of (create_calls tr) a"

text \<open>The strings a creation call is given: its positional names and the leaves of its parameters.\<close>

fun param_strings :: "param \<Rightarrow> string list" where
  "param_strings (S s) = [s]"
| "param_strings (U _) = []"
| "param_strings (I _) = []"
| "param_strings (B _) = []"
| "param_strings (L ps) = concat (map param_strings ps)"
| "param_strings (D kvs) = concat (map (\<lambda>kv. param_strings (snd kv)) kvs)"

definition call_strings :: "api \<Rightarrow> event list \<Rightarrow> string list" where
  "call_strings a tr =
     (case create_call a tr of
        None \<Rightarrow> []
      | Some (args, props) \<Rightarrow> args @ param_strings props)"

text \<open>
  The entries lines 23 to 34 read: \<open>cfg["subscription_id"]\<close> and, below, the pairs
  \<open>(a, b)\<close> of the lookups \<open>cfg[a][b]\<close>. A configuration is complete when it has them all.
\<close>

definition required_fields :: "(string \<times> string) list" where
  "required_fields =
     [(''resource_group'', ''name''), (''resource_group'', ''location''),
      (''vm'', ''name''), (''vm'', ''size''), (''vm'', ''admin_username''),
      (''vm'', ''ssh_public_key_path''), (''vm'', ''virtual_network''),
      (''vm'', ''sub_network''), (''vm'', ''network_security_grp''),
      (''vm'', ''public_ip''), (''vm'', ''network_interface'')]"

definition has_field :: "config \<Rightarrow> string \<times> string \<Rightarrow> bool" where
  "has_field cfg f =
     (case map_of cfg (fst f) of
        None \<Rightarrow> False
      | Some (Leaf _) \<Rightarrow> False
      | Some (Section kvs) \<Rightarrow> map_of kvs (snd f) \<noteq> None)"

definition complete :: "config \<Rightarrow> bool" where
  "complete cfg \<longleftrightarrow>
     map_of cfg ''subscription_id'' \<noteq> None \<and> list_all (has_field cfg) required_fields"

subsection \<open>A configuration and a scripted SDK for concrete runs\<close>

definition sample_cfg :: config where
  "sample_cfg =
     [(''subscription_id'', Leaf ''sub-1''),
      (''resource_group'', Section [(''name'', ''rg1''), (''location'', ''eastus'')]),
      (''vm'', Section [(''name'', ''vm1''), (''size'', ''Standard_B1s''),
                        (''admin_username'', ''azureuser''),
                        (''ssh_public_key_path'', ''~/.ssh/id_rsa.pub''),
                        (''virtual_network'', ''vnet1''), (''sub_network'', ''subnet1''),
                        (''network_security_grp'', ''nsg1''), (''public_ip'', ''ip1''),
                        (''network_interface'', ''nic1'')])]"

definition sample_request :: request where
  "sample_request =
     \<lparr> subscription_id = Leaf ''sub-1'', resource_group = ''rg1'', location = ''eastus'',
       vm_name = ''vm1'', vm_size = ''Standard_B1s'', admin_username = ''azureuser'',
       ssh_key_path = ''/home/u/.ssh/id_rsa.pub'', virtual_network = ''vnet1'',
       sub_network = ''subnet1'', network_security_grp = ''nsg1'', public_ip = ''ip1'',
       network_interface = ''nic1'' \<rparr>"

text \<open>
  The text of the key file, \<open>ssh-rsa AAAA\<close> followed by a no-break space and a line feed,
  and what \<open>strip\<close> leaves of it.
\<close>

definition sample_key_file :: "nat list" where
  "sample_key_file = [115, 115, 104, 45, 114, 115, 97, 32, 65, 65, 65, 65, 160, 10]"

definition sample_key :: "nat list" where
  "sample_key = [115, 115, 104, 45, 114, 115, 97, 32, 65, 65, 65, 65]"

text \<open>
  The attributes the scripted \<open>IPConfiguration\<close> declares; it drops any other keyword, as
  one version of the SDK does.
\<close>

definition ip_configuration_attributes :: "string list" where
  "ip_configuration_attributes =
     [''id'', ''name'', ''etag'', ''private_ip_address'', ''private_ip_allocation_method'',
      ''subnet'', ''public_ip_address'']"

definition sample_ip_config :: param where
  "sample_ip_config =
     D [(''name'', S ''ipconfig1''),
        (''subnet'', D [(''id'', S ''/id/subnet1'')]),
        (''public_ip_address'', D [(''id'', S ''/id/ip1'')])]"

text \<open>
  The creation calls on the operation groups of \<open>bad_create\<close> raise, the others return an
  object whose id is made from the resource's name; the delete calls on the operation groups
  of \<open>bad_delete\<close> raise; the key file is there when \<open>key_present\<close>.
\<close>

definition scripted_env :: "api list \<Rightarrow> api list \<Rightarrow> bool \<Rightarrow> env" where
  "scripted_env bad_create bad_delete key_present =
     \<lparr> make_clients = (\<lambda>_. None),
       expanduser = (\<lambda>p. if take 2 p = ''~/'' then ''/home/u'' @ drop 1 p else p),
       read_file = (\<lambda>p. if key_present \<and> p = ''/home/u/.ssh/id_rsa.pub''
                         then Inr sample_key_file else Inl (OSError p)),
       ip_configuration = (\<lambda>kwargs.
          Inr (D (filter (\<lambda>kv. fst kv \<in> set ip_configuration_attributes) kwargs))),
       create_or_update = (\<lambda>tr a args props.
          if a \<in> set bad_create then Inl (ProviderError ''QuotaExceeded'' (last args))
          else Inr (ResourceObj (''/id/'' @ last args))),
       begin_delete = (\<lambda>tr a rg name.
          if a \<in> set bad_delete then Some (ProviderError ''Busy'' rg) else None) \<rparr>"

section \<open>Properties\<close>

subsection \<open>Reading appended traces\<close>

lemma failed_create_append:
  "failed_create (xs @ ys) = (case failed_create xs of None \<Rightarrow> failed_create ys | Some x \<Rightarrow> Some x)"
  by (induction xs) (auto split: event.splits sum.splits)

lemma delete_calls_append: "delete_calls (xs @ ys) = delete_calls xs @ delete_calls ys"
  by (induction xs) (auto split: event.splits)

lemma succeeded_append: "succeeded (xs @ ys) = succeeded xs @ succeeded ys"
  by (induction xs) (auto split: event.splits sum.splits)

lemma create_calls_append: "create_calls (xs @ ys) = create_calls xs @ create_calls ys"
  by (induction xs) (auto split: event.splits)

lemma failed_deletes_append: "failed_deletes (xs @ ys) = failed_deletes xs @ failed_deletes ys"
  by (induction xs) (auto split: event.splits option.splits)

lemma deleting_lines_append: "deleting_lines (xs @ ys) = deleting_lines xs @ deleting_lines ys"
  by (induction xs) (auto split: event.splits msg.splits)

lemma failure_lines_append: "failure_lines (xs @ ys) = failure_lines xs @ failure_lines ys"
  by (induction xs) (auto split: event.splits msg.splits)

lemma expected_deletes_append:
  "expected_deletes rg (xs @ ys) = expected_deletes rg xs @ expected_deletes rg ys"
  by (induction xs) (auto split: option.splits)

lemma try_delete_events:
  "\<exists>evs. try_delete e a rg rtype name tr = tr @ evs \<and> quiet evs
      \<and> delete_calls evs = [(a, rg, name)] \<and> deleting_lines evs = []
      \<and> failure_lines evs = map (\<lambda>c. (rtype, snd c)) (failed_deletes evs)
      \<and> map fst (failed_deletes evs) = (case begin_delete e tr a rg name of None \<Rightarrow> [] | Some _ \<Rightarrow> [a])"
  by (simp add: try_delete_def quiet_def split: option.splits)

lemma rollback_one_events:
  "\<exists>evs. rollback_one e rg c tr = tr @ evs \<and> quiet evs
      \<and> delete_calls evs = expected_deletes rg [c] \<and> deleting_lines evs = [c]
      \<and> map line_key (failure_lines evs) = map call_key (failed_deletes evs)"
proof -
  obtain rtype name where c: "c = (rtype, name)" by (cases c)
  let ?tr = "tr @ [Print (MsgDeleting rtype name)]"
  show ?thesis
  proof (cases "rtype_api rtype")
    case None
    then have "rollback_one e rg c tr = ?tr"
      by (simp add: rollback_one_def rtype_api_def c Let_def split: if_splits)
    with None show ?thesis by (simp add: c quiet_def)
  next
    case (Some a)
    then have eq: "rollback_one e rg c tr = try_delete e a rg rtype name ?tr"
      by (simp add: rollback_one_def rtype_api_def c Let_def split: if_splits)
    from try_delete_events [of e a rg rtype name ?tr] obtain evs where
      evs: "try_delete e a rg rtype name ?tr = ?tr @ evs" "quiet evs"
           "delete_calls evs = [(a, rg, name)]" "deleting_lines evs = []"
           "failure_lines evs = map (\<lambda>c. (rtype, snd c)) (failed_deletes evs)"
           "map fst (failed_deletes evs) = (case begin_delete e ?tr a rg name of None \<Rightarrow> [] | Some _ \<Rightarrow> [a])"
      by blast
    have fst_a: "\<forall>d \<in> set (failed_deletes evs). fst d = a"
      using evs(6) by (cases "failed_deletes evs"; cases "begin_delete e ?tr a rg name") auto
    have "map line_key (failure_lines evs) = map call_key (failed_deletes evs)"
      using fst_a Some by (simp add: evs(5) line_key_def call_key_def)
    with evs Some eq show ?thesis
      by (intro exI [of _ "Print (MsgDeleting rtype name) # evs"])
         (simp add: c quiet_def)
  qed
qed

lemma rollback_loop_events:
  "\<exists>evs. rollback_loop e rg cs tr = tr @ evs \<and> quiet evs
      \<and> delete_calls evs = expected_deletes rg cs \<and> deleting_lines evs = cs
      \<and> map line_key (failure_lines evs) = map call_key (failed_deletes evs)"
proof (induction cs arbitrary: tr)
  case Nil
  show ?case by (simp add: quiet_def)
next
  case (Cons c cs)
  from rollback_one_events [of e rg c tr] obtain evs1 where
    1: "rollback_one e rg c tr = tr @ evs1" "quiet evs1"
       "delete_calls evs1 = expected_deletes rg [c]" "deleting_lines evs1 = [c]"
       "map line_key (failure_lines evs1) = map call_key (failed_deletes evs1)"
    by blast
  from Cons.IH [of "tr @ evs1"] obtain evs2 where
    2: "rollback_loop e rg cs (tr @ evs1) = (tr @ evs1) @ evs2" "quiet evs2"
       "delete_calls evs2 = expected_deletes rg cs" "deleting_lines evs2 = cs"
       "map line_key (failure_lines evs2) = map call_key (failed_deletes evs2)"
    by blast
  have "expected_deletes rg (c # cs) = expected_deletes rg [c] @ expected_deletes rg cs"
    using expected_deletes_append [of rg "[c]" cs] by simp
  with 1 2 show ?case
    by (intro exI [of _ "evs1 @ evs2"])
       (simp add: quiet_def failed_create_append create_calls_append succeeded_append
          delete_calls_append deleting_lines_append failure_lines_append failed_deletes_append)
qed

lemma rollback_resources_events:
  "\<exists>evs. snd (rollback_resources e rg created tr) = tr @ evs \<and> quiet evs
      \<and> delete_calls evs = expected_deletes rg (rev created)
      \<and> deleting_lines evs = rev created
      \<and> map line_key (failure_lines evs) = map call_key (failed_deletes evs)"
proof -
  from rollback_loop_events [of e rg "rev created" tr] obtain evs where
    1: "rollback_loop e rg (rev created) tr = tr @ evs" "quiet evs"
       "delete_calls evs = expected_deletes rg (rev created)" "deleting_lines evs = rev created"
       "map line_key (failure_lines evs) = map call_key (failed_deletes evs)"
    by blast
  then show ?thesis
    by (intro exI [of _ "evs @ [Print MsgRollbackComplete]"])
       (simp add: rollback_resources_def quiet_def failed_create_append create_calls_append
          succeeded_append delete_calls_append deleting_lines_append failure_lines_append
          failed_deletes_append)
qed

subsection \<open>The body of the \<open>try\<close>\<close>


lemma try_no_deletes:
  assumes "create_vm_try e r tr0 = (res, created, tr)"
  shows "delete_calls tr = delete_calls tr0 \<and> deleting_lines tr = deleting_lines tr0"
  using assms
  by (auto simp: create_vm_try_def invoke_create_def Let_def delete_calls_append
           deleting_lines_append
           split: sum.splits prod.splits option.splits)

lemma expected_deletes_apis:
  "map fst (expected_deletes rg cs) = List.map_filter rtype_api (map fst cs)"
  by (induction cs) (auto simp: List.map_filter_simps split: option.splits)



lemma try_success:
  assumes "create_vm_try e r tr0 = (res, created, tr)"
      and "create_calls tr0 = []" and "succeeded tr0 = []"
      and "VirtualMachines \<in> set (map fst (succeeded tr))"
  shows "res = None \<and> map fst created = step_kinds
       \<and> map fst (succeeded tr) = ResourceGroups # step_apis
       \<and> map fst (create_calls tr) = ResourceGroups # step_apis
       \<and> last tr = Print (MsgCreated (vm_name r) (location r))"
  using assms
  by (auto simp: create_vm_try_def invoke_create_def Let_def succeeded_append create_calls_append
           step_kinds_def step_apis_def
           split: sum.splits prod.splits option.splits)

lemma try_first_call:
  assumes "create_vm_try e r tr0 = (res, created, tr)"
      and "create_calls tr0 = []"
  shows "\<exists>rest. create_calls tr = (ResourceGroups, [resource_group r], rg_params r) # rest
           \<and> ResourceGroups \<notin> set (map fst rest)"
  using assms
  by (auto simp: create_vm_try_def invoke_create_def Let_def create_calls_append
           split: sum.splits prod.splits option.splits)

lemma try_created_kinds:
  assumes "create_vm_try e r tr0 = (res, created, tr)"
  shows "\<exists>n. map fst created = take n step_kinds"
proof -
  have "map fst created \<in> set (map (\<lambda>n. take n step_kinds) [0, 1, 2, 3, 4, 5, 6])"
    using assms
    by (auto simp: create_vm_try_def invoke_create_def Let_def step_kinds_def
           split: sum.splits prod.splits option.splits)
  then show ?thesis by auto
qed

lemma try_wiring:
  assumes "create_vm_try e r tr0 = (res, created, tr)"
      and "create_calls tr0 = []" and "succeeded tr0 = []"
  shows "(\<forall>args props. create_call Subnets tr = Some (args, props) \<longrightarrow>
            args = [resource_group r, virtual_network r, sub_network r] \<and> props = subnet_params)
       \<and> (\<forall>args props. create_call NetworkInterfaces tr = Some (args, props) \<longrightarrow>
            (\<exists>subnet pip nsg ip_config. created_obj Subnets tr = Some subnet
               \<and> created_obj PublicIpAddresses tr = Some pip
               \<and> created_obj NetworkSecurityGroups tr = Some nsg
               \<and> ip_configuration e (ip_configuration_kwargs subnet pip nsg) = Inr ip_config
               \<and> args = [resource_group r, network_interface r]
               \<and> props = nic_params r ip_config))
       \<and> (\<forall>args props. create_call VirtualMachines tr = Some (args, props) \<longrightarrow>
            (\<exists>nic contents. created_obj NetworkInterfaces tr = Some nic
               \<and> read_file e (ssh_key_path r) = Inr contents
               \<and> args = [resource_group r, vm_name r]
               \<and> props = vm_parameters r (strip contents) nic))"
  using assms
  by (auto simp: create_vm_try_def invoke_create_def Let_def succeeded_append create_calls_append
           create_call_def created_obj_def
           split: sum.splits prod.splits option.splits)

lemma try_key_failure:
  assumes "create_vm_try e r tr0 = (Some ex, created, tr)"
      and "failed_create tr0 = None" and "create_calls tr0 = []"
      and "failed_create tr = None"
      and "NetworkInterfaces \<in> set (map fst (create_calls tr))"
  shows "read_file e (ssh_key_path r) = Inl ex
       \<and> map fst created = take 5 step_kinds
       \<and> map fst (create_calls tr) = ResourceGroups # take 5 step_apis"
  using assms
  by (auto simp: create_vm_try_def invoke_create_def Let_def failed_create_append create_calls_append
           step_kinds_def step_apis_def
           split: sum.splits prod.splits option.splits)

lemma provision_events:
  assumes "make_clients e (subscription_id r) = None"
      and "create_vm_try e r [Print (MsgStarting (vm_name r) (location r))] = (res, created, tr1)"
  shows "\<exists>evs. provision e r = ((case res of None \<Rightarrow> Inr PNone | Some ex \<Rightarrow> Inl ex), tr1 @ evs)
           \<and> quiet evs
           \<and> delete_calls evs =
               (case res of None \<Rightarrow> [] | Some ex \<Rightarrow> expected_deletes (resource_group r) (rev created))"
proof (cases res)
  case None
  with assms show ?thesis by (simp add: provision_def quiet_def)
next
  case (Some ex)
  let ?tr2 = "tr1 @ [Print (MsgError ex), Print MsgRollingBack]"
  from rollback_resources_events [of e "resource_group r" created ?tr2]
  obtain evs where evs: "snd (rollback_resources e (resource_group r) created ?tr2) = ?tr2 @ evs"
    "quiet evs" "delete_calls evs = expected_deletes (resource_group r) (rev created)" by blast
  with assms Some show ?thesis
    by (intro exI [of _ "[Print (MsgError ex), Print MsgRollingBack] @ evs"])
       (simp add: provision_def quiet_def)
qed

subsection \<open>The strings of a call\<close>

lemma subnet_strings: "param_strings subnet_params = [''10.0.0.0/24'']"
  by (simp add: subnet_params_def)

lemma ip_configuration_kwargs_ids:
  "map_of (ip_configuration_kwargs subnet pip nsg) ''subnet'' = Some (D [(''id'', S (obj_id subnet))])
   \<and> map_of (ip_configuration_kwargs subnet pip nsg) ''public_ip_address'' =
       Some (D [(''id'', S (obj_id pip))])"
  by (simp add: ip_configuration_kwargs_def)

lemma nic_strings: "set (param_strings ip_config) \<subseteq> set (param_strings (nic_params r ip_config))"
  by (auto simp: nic_params_def)

lemma vm_strings: "obj_id nic \<in> set (param_strings (vm_parameters r key nic))"
  by (simp add: vm_parameters_def)

lemma try_returns_key:
  assumes "create_vm_try e r tr0 = (None, created, tr)"
  shows "\<exists>contents. read_file e (ssh_key_path r) = Inr contents"
  using assms
  by (auto simp: create_vm_try_def invoke_create_def Let_def
           split: sum.splits prod.splits option.splits)

subsection \<open>The whole function\<close>

lemma expected_deletes_no_rg:
  "ResourceGroups \<notin> set (map fst (expected_deletes rg cs))"
  by (induction cs) (auto simp: rtype_api_def split: option.splits if_splits)

lemma create_vm_deletes:
  "ResourceGroups \<notin> set (map fst (delete_calls (snd (create_vm e cfg))))"
proof (cases "read_cfg e cfg")
  case (Inl ex)
  then show ?thesis by (simp add: create_vm_def)
next
  case (Inr r)
  let ?tr0 = "[Print (MsgStarting (vm_name r) (location r))]"
  have cv: "create_vm e cfg = provision e r" using Inr by (simp add: create_vm_def)
  show ?thesis
  proof (cases "make_clients e (subscription_id r)")
    case (Some ex)
    with cv show ?thesis by (simp add: provision_def)
  next
    case None
    obtain res created tr1 where t: "create_vm_try e r ?tr0 = (res, created, tr1)"
      by (cases "create_vm_try e r ?tr0") auto
    from provision_events [OF None t] obtain evs where
      p: "provision e r = ((case res of None \<Rightarrow> Inr PNone | Some ex \<Rightarrow> Inl ex), tr1 @ evs)"
      and d: "delete_calls evs =
        (case res of None \<Rightarrow> [] | Some ex \<Rightarrow> expected_deletes (resource_group r) (rev created))"
      by blast
    from try_no_deletes [OF t] have "delete_calls tr1 = []" by simp
    with cv p d expected_deletes_no_rg [of "resource_group r" "rev created"]
    show ?thesis by (cases res) (simp_all add: delete_calls_append)
  qed
qed

lemma provision_returns: "fst (provision e r) = Inr v \<Longrightarrow> v = PNone"
  by (auto simp: provision_def Let_def split: option.splits prod.splits)

lemma create_vm_returns: "returned_id (fst (create_vm e cfg)) = None"
proof (cases "fst (create_vm e cfg)")
  case (Inl ex)
  then show ?thesis by (simp add: returned_id_def)
next
  case (Inr v)
  then have "v = PNone"
    by (cases "read_cfg e cfg") (auto simp: create_vm_def dest: provision_returns)
  with Inr show ?thesis by (simp add: returned_id_def pyval_id_def)
qed

subsection \<open>Reading the configuration\<close>

lemma getitem_error:
  "getitem cfg a = Inl ex \<Longrightarrow> ex = KeyError a"
  by (auto simp: getitem_def split: option.splits)

lemma getitem_present:
  "getitem cfg a = Inr v \<Longrightarrow> map_of cfg a \<noteq> None"
  by (auto simp: getitem_def split: option.splits)

lemma getitem2_error:
  "getitem2 cfg a b = Inl ex \<Longrightarrow> ex = TypeError \<or> ex = KeyError a \<or> ex = KeyError b"
  by (auto simp: getitem2_def getitem_def subitem_def bindE_def
      split: option.splits cfgval.splits sum.splits)

lemma getitem2_present:
  "getitem2 cfg a b = Inr s \<Longrightarrow> has_field cfg (a, b)"
  by (auto simp: getitem2_def getitem_def subitem_def bindE_def has_field_def
      split: option.splits cfgval.splits sum.splits)

lemma bindE_Inr:
  "bindE m f = Inr y \<Longrightarrow> \<exists>x. m = Inr x \<and> f x = Inr y"
  by (cases m) (simp_all add: bindE_def)

lemma bindE_Inl:
  "bindE m f = Inl ex \<Longrightarrow> m = Inl ex \<or> (\<exists>x. m = Inr x \<and> f x = Inl ex)"
  by (cases m) (simp_all add: bindE_def)

lemma read_cfg_complete:
  assumes "read_cfg e cfg = Inr r"
  shows "complete cfg"
  using assms unfolding read_cfg_def complete_def required_fields_def
  by (auto dest!: bindE_Inr dest: getitem2_present getitem_present)

lemma read_cfg_error:
  assumes "read_cfg e cfg = Inl ex"
  shows "ex = TypeError \<or> (\<exists>k. ex = KeyError k)"
  using assms unfolding read_cfg_def
  by (auto dest!: bindE_Inl dest: getitem2_error getitem_error)

lemma incomplete_read:
  assumes "\<not> complete cfg"
  shows "\<exists>ex. read_cfg e cfg = Inl ex \<and> (ex = TypeError \<or> (\<exists>k. ex = KeyError k))"
proof (cases "read_cfg e cfg")
  case (Inl ex)
  with read_cfg_error [OF Inl] show ?thesis by simp
next
  case (Inr r)
  with read_cfg_complete [OF Inr] assms show ?thesis by simp
qed

subsection \<open>Concrete runs\<close>

lemmas run_defs = create_vm_def read_cfg_def getitem_def getitem2_def subitem_def bindE_def
  sample_cfg_def scripted_env_def provision_def create_vm_try_def invoke_create_def
  rollback_resources_def rollback_one_def try_delete_def Let_def
  rg_params_def vnet_params_def subnet_params_def nsg_params_def pip_params_def nic_params_def
  vm_parameters_def strip_def is_space_def ip_configuration_kwargs_def
  ip_configuration_attributes_def sample_ip_config_def sample_key_file_def sample_key_def

lemma sample_read: "read_cfg (scripted_env bc bd kp) sample_cfg = Inr sample_request"
  by (simp add: read_cfg_def getitem_def getitem2_def subitem_def bindE_def sample_cfg_def
        scripted_env_def sample_request_def)

text \<open>The creation of the network interface raises, and so does the deletion of the public IP.\<close>

lemma run_nic_fails:
  "create_vm (scripted_env [NetworkInterfaces] [PublicIpAddresses] True) sample_cfg =
     (Inl (ProviderError ''QuotaExceeded'' ''nic1''),
      [Print (MsgStarting ''vm1'' ''eastus''), Print (MsgEnsuringRG ''rg1''),
       Create ResourceGroups [''rg1''] (rg_params sample_request) (Inr (ResourceObj ''/id/rg1'')),
       Print MsgCreatingVNet,
       Create VirtualNetworks [''rg1'', ''vnet1''] (vnet_params sample_request)
         (Inr (ResourceObj ''/id/vnet1'')),
       Print MsgCreatingSubnet,
       Create Subnets [''rg1'', ''vnet1'', ''subnet1''] subnet_params
         (Inr (ResourceObj ''/id/subnet1'')),
       Print MsgCreatingNSG,
       Create NetworkSecurityGroups [''rg1'', ''nsg1''] (nsg_params sample_request)
         (Inr (ResourceObj ''/id/nsg1'')),
       Print MsgCreatingPublicIP,
       Create PublicIpAddresses [''rg1'', ''ip1''] (pip_params sample_request)
         (Inr (ResourceObj ''/id/ip1'')),
       Print MsgCreatingNIC,
       Create NetworkInterfaces [''rg1'', ''nic1'']
         (nic_params sample_request sample_ip_config)
         (Inl (ProviderError ''QuotaExceeded'' ''nic1'')),
       Print (MsgError (ProviderError ''QuotaExceeded'' ''nic1'')),
       Print MsgRollingBack,
       Print (MsgDeleting ''public_ip'' (PObj (ResourceObj ''/id/ip1''))),
       Delete PublicIpAddresses ''rg1'' (PObj (ResourceObj ''/id/ip1''))
         (Some (ProviderError ''Busy'' ''rg1'')),
       Print (MsgFailedDelete ''public_ip'' (PObj (ResourceObj ''/id/ip1''))
                (ProviderError ''Busy'' ''rg1'')),
       Print (MsgDeleting ''nsg'' (PStr ''nsg1'')),
       Delete NetworkSecurityGroups ''rg1'' (PStr ''nsg1'') None,
       Print (MsgDeleting ''subnet'' (PStr ''subnet1'')),
       Print (MsgDeleting ''vnet'' (PStr ''vnet1'')),
       Delete VirtualNetworks ''rg1'' (PStr ''vnet1'') None,
       Print MsgRollbackComplete])"
  by (simp add: run_defs sample_request_def)

text \<open>Every call returns.\<close>

lemma run_all_succeed:
  "create_vm (scripted_env [] [] True) sample_cfg =
     (Inr PNone,
      [Print (MsgStarting ''vm1'' ''eastus''), Print (MsgEnsuringRG ''rg1''),
       Create ResourceGroups [''rg1''] (rg_params sample_request) (Inr (ResourceObj ''/id/rg1'')),
       Print MsgCreatingVNet,
       Create VirtualNetworks [''rg1'', ''vnet1''] (vnet_params sample_request)
         (Inr (ResourceObj ''/id/vnet1'')),
       Print MsgCreatingSubnet,
       Create Subnets [''rg1'', ''vnet1'', ''subnet1''] subnet_params
         (Inr (ResourceObj ''/id/subnet1'')),
       Print MsgCreatingNSG,
       Create NetworkSecurityGroups [''rg1'', ''nsg1''] (nsg_params sample_request)
         (Inr (ResourceObj ''/id/nsg1'')),
       Print MsgCreatingPublicIP,
       Create PublicIpAddresses [''rg1'', ''ip1''] (pip_params sample_request)
         (Inr (ResourceObj ''/id/ip1'')),
       Print MsgCreatingNIC,
       Create NetworkInterfaces [''rg1'', ''nic1'']
         (nic_params sample_request sample_ip_config)
         (Inr (ResourceObj ''/id/nic1'')),
       Print MsgDefiningVM, Print (MsgCreatingVM ''vm1''),
       Create VirtualMachines [''rg1'', ''vm1'']
         (vm_parameters sample_request sample_key (ResourceObj ''/id/nic1''))
         (Inr (ResourceObj ''/id/vm1'')),
       Print (MsgCreated ''vm1'' ''eastus'')])"
  by (simp add: run_defs sample_request_def)

text \<open>Every call returns, but the key file is not there.\<close>

lemma run_key_missing:
  "create_vm (scripted_env [] [] False) sample_cfg =
     (Inl (OSError ''/home/u/.ssh/id_rsa.pub''),
      [Print (MsgStarting ''vm1'' ''eastus''), Print (MsgEnsuringRG ''rg1''),
       Create ResourceGroups [''rg1''] (rg_params sample_request) (Inr (ResourceObj ''/id/rg1'')),
       Print MsgCreatingVNet,
       Create VirtualNetworks [''rg1'', ''vnet1''] (vnet_params sample_request)
         (Inr (ResourceObj ''/id/vnet1'')),
       Print MsgCreatingSubnet,
       Create Subnets [''rg1'', ''vnet1'', ''subnet1''] subnet_params
         (Inr (ResourceObj ''/id/subnet1'')),
       Print MsgCreatingNSG,
       Create NetworkSecurityGroups [''rg1'', ''nsg1''] (nsg_params sample_request)
         (Inr (ResourceObj ''/id/nsg1'')),
       Print MsgCreatingPublicIP,
       Create PublicIpAddresses [''rg1'', ''ip1''] (pip_params sample_request)
         (Inr (ResourceObj ''/id/ip1'')),
       Print MsgCreatingNIC,
       Create NetworkInterfaces [''rg1'', ''nic1'']
         (nic_params sample_request sample_ip_config)
         (Inr (ResourceObj ''/id/nic1'')),
       Print MsgDefiningVM,
       Print (MsgError (OSError ''/home/u/.ssh/id_rsa.pub'')),
       Print MsgRollingBack,
       Print (MsgDeleting ''nic'' (PStr ''nic1'')),
       Delete NetworkInterfaces ''rg1'' (PStr ''nic1'') None,
       Print (MsgDeleting ''public_ip'' (PObj (ResourceObj ''/id/ip1''))),
       Delete PublicIpAddresses ''rg1'' (PObj (ResourceObj ''/id/ip1'')) None,
       Print (MsgDeleting ''nsg'' (PStr ''nsg1'')),
       Delete NetworkSecurityGroups ''rg1'' (PStr ''nsg1'') None,
       Print (MsgDeleting ''subnet'' (PStr ''subnet1'')),
       Print (MsgDeleting ''vnet'' (PStr ''vnet1'')),
       Delete VirtualNetworks ''rg1'' (PStr ''vnet1'') None,
       Print MsgRollbackComplete])"
  by (simp add: run_defs sample_request_def)

text \<open>The call that ensures the resource group raises.\<close>

lemma run_ensure_fails:
  "create_vm (scripted_env [ResourceGroups] [] True) sample_cfg =
     (Inl (ProviderError ''QuotaExceeded'' ''rg1''),
      [Print (MsgStarting ''vm1'' ''eastus''), Print (MsgEnsuringRG ''rg1''),
       Create ResourceGroups [''rg1''] (rg_params sample_request)
         (Inl (ProviderError ''QuotaExceeded'' ''rg1'')),
       Print (MsgError (ProviderError ''QuotaExceeded'' ''rg1'')),
       Print MsgRollingBack, Print MsgRollbackComplete])"
  by (simp add: run_defs sample_request_def)

text \<open>A rollback of five committed entries in which the deletion of the public IP raises.\<close>

lemma run_rollback:
  "rollback_resources (scripted_env [] [PublicIpAddresses] True) ''rg1''
     [(''vnet'', PStr ''vnet1''), (''subnet'', PStr ''subnet1''), (''nsg'', PStr ''nsg1''),
      (''public_ip'', PObj (ResourceObj ''/id/ip1'')), (''nic'', PStr ''nic1'')] [] =
     (PNone,
      [Print (MsgDeleting ''nic'' (PStr ''nic1'')),
       Delete NetworkInterfaces ''rg1'' (PStr ''nic1'') None,
       Print (MsgDeleting ''public_ip'' (PObj (ResourceObj ''/id/ip1''))),
       Delete PublicIpAddresses ''rg1'' (PObj (ResourceObj ''/id/ip1''))
         (Some (ProviderError ''Busy'' ''rg1'')),
       Print (MsgFailedDelete ''public_ip'' (PObj (ResourceObj ''/id/ip1''))
                (ProviderError ''Busy'' ''rg1'')),
       Print (MsgDeleting ''nsg'' (PStr ''nsg1'')),
       Delete NetworkSecurityGroups ''rg1'' (PStr ''nsg1'') None,
       Print (MsgDeleting ''subnet'' (PStr ''subnet1'')),
       Print (MsgDeleting ''vnet'' (PStr ''vnet1'')),
       Delete VirtualNetworks ''rg1'' (PStr ''vnet1'') None,
       Print MsgRollbackComplete])"
  by (simp add: run_defs)

text \<open>
  The keyword \<open>network_security_group\<close> of line 107 under two constructors: one that drops
  the keywords it does not declare, and one that raises on them.
\<close>

lemma run_keyword_dropped:
  "created_id NetworkSecurityGroups (snd (create_vm (scripted_env [] [] True) sample_cfg)) =
     Some ''/id/nsg1''
   \<and> call_strings NetworkInterfaces (snd (create_vm (scripted_env [] [] True) sample_cfg)) =
       [''rg1'', ''nic1'', ''eastus'', ''ipconfig1'', ''/id/subnet1'', ''/id/ip1'']"
  by (simp add: run_all_succeed created_id_def created_obj_def call_strings_def create_call_def
        nic_params_def sample_ip_config_def sample_request_def)

lemma run_keyword_raises:
  "fst (create_vm (scripted_env [] [] True \<lparr>ip_configuration := \<lambda>kwargs. Inl TypeError\<rparr>)
          sample_cfg) = Inl TypeError
   \<and> map fst (create_calls
        (snd (create_vm (scripted_env [] [] True \<lparr>ip_configuration := \<lambda>kwargs. Inl TypeError\<rparr>)
                sample_cfg))) =
       [ResourceGroups, VirtualNetworks, Subnets, NetworkSecurityGroups, PublicIpAddresses]
   \<and> map fst (delete_calls
        (snd (create_vm (scripted_env [] [] True \<lparr>ip_configuration := \<lambda>kwargs. Inl TypeError\<rparr>)
                sample_cfg))) =
       [PublicIpAddresses, NetworkSecurityGroups, VirtualNetworks]"
  by (simp add: run_defs)

text \<open>A configuration without its \<open>vm\<close> section.\<close>

lemma run_no_vm_section:
  "create_vm e (take 2 sample_cfg) = (Inl (KeyError ''vm''), [])"
  by (simp add: create_vm_def read_cfg_def getitem_def getitem2_def subitem_def bindE_def
        sample_cfg_def)

section \<open>The claims\<close>





text \<open>
  C3 (as the code has it). When the six creation calls all return, the creation calls of the
  run are the one that ensures the resource group and then VNet, Subnet, NSG, PublicIP, NIC,
  VM, in that order and once each; \<open>created_resources\<close> ends with the six tags in that
  order; no delete call is made; the last thing the run does is print the success line that
  names the virtual machine; and \<open>create_vm\<close> returns \<open>None\<close>. The identifier of the
  virtual machine is not part of what it returns.
\<close>

theorem all_steps_succeed:
  assumes "read_cfg e cfg = Inr r"
      and "set step_apis \<subseteq> set (map fst (succeeded (snd (create_vm e cfg))))"
  shows "map fst (create_calls (snd (create_vm e cfg))) = ResourceGroups # step_apis
       \<and> map fst (succeeded (snd (create_vm e cfg))) = ResourceGroups # step_apis
       \<and> (\<exists>created.
             create_vm_try e r [Print (MsgStarting (vm_name r) (location r))] =
               (None, created, snd (create_vm e cfg))
           \<and> map fst created = step_kinds \<and> length created = 6)
       \<and> fst (create_vm e cfg) = Inr PNone
       \<and> delete_calls (snd (create_vm e cfg)) = []
       \<and> last (snd (create_vm e cfg)) = Print (MsgCreated (vm_name r) (location r))"
proof -
  let ?tr0 = "[Print (MsgStarting (vm_name r) (location r))]"
  have cv: "create_vm e cfg = provision e r"
    using assms(1) by (simp add: create_vm_def)
  have vm: "VirtualMachines \<in> set (map fst (succeeded (snd (provision e r))))"
    using assms(2) cv by (auto simp: step_apis_def)
  have mc: "make_clients e (subscription_id r) = None"
  proof (cases "make_clients e (subscription_id r)")
    case (Some ex)
    with vm show ?thesis by (simp add: provision_def)
  qed simp
  obtain res created tr1 where t: "create_vm_try e r ?tr0 = (res, created, tr1)"
    by (cases "create_vm_try e r ?tr0") auto
  from provision_events [OF mc t] obtain evs where
    p: "provision e r = ((case res of None \<Rightarrow> Inr PNone | Some ex \<Rightarrow> Inl ex), tr1 @ evs)"
    and q: "quiet evs" by blast
  from vm p q have "VirtualMachines \<in> set (map fst (succeeded tr1))"
    by (simp add: succeeded_append quiet_def)
  from try_success [OF t _ _ this]
  have s: "res = None" "map fst created = step_kinds"
    "map fst (succeeded tr1) = ResourceGroups # step_apis"
    "map fst (create_calls tr1) = ResourceGroups # step_apis"
    "last tr1 = Print (MsgCreated (vm_name r) (location r))"
    by simp_all
  have pr: "provision e r = (Inr PNone, tr1)"
    using mc t s(1) by (simp add: provision_def)
  have len: "length created = 6"
    using arg_cong [OF s(2), of length] by (simp add: step_kinds_def)
  from try_no_deletes [OF t] have "delete_calls tr1 = []" by simp
  with cv pr t s len show ?thesis by simp
qed

theorem all_steps_succeed_witness:
  "read_cfg (scripted_env [] [] True) sample_cfg = Inr sample_request
   \<and> set step_apis \<subseteq> set (map fst (succeeded (snd (create_vm (scripted_env [] [] True) sample_cfg))))
   \<and> map fst (create_calls (snd (create_vm (scripted_env [] [] True) sample_cfg))) =
       [ResourceGroups, VirtualNetworks, Subnets, NetworkSecurityGroups, PublicIpAddresses,
        NetworkInterfaces, VirtualMachines]
   \<and> fst (create_vm (scripted_env [] [] True) sample_cfg) = Inr PNone"
proof -
  let ?e = "scripted_env [] [] True"
  have h1: "read_cfg ?e sample_cfg = Inr sample_request"
    by (rule sample_read)
  have h2: "set step_apis \<subseteq> set (map fst (succeeded (snd (create_vm ?e sample_cfg))))"
    by (simp add: run_all_succeed step_apis_def)
  from all_steps_succeed [OF h1 h2] h1 h2 show ?thesis
    by (simp add: step_apis_def)
qed

text \<open>
  The claim as the specification states it, that the outcome of a successful run contains the
  identifier of the virtual machine, fails: here the SDK returns the virtual machine
  \<open>/id/vm1\<close> and \<open>create_vm\<close> returns \<open>None\<close>.
\<close>

theorem success_returns_none_counterexample:
  "set step_apis \<subseteq> set (map fst (succeeded (snd (create_vm (scripted_env [] [] True) sample_cfg))))
   \<and> created_id VirtualMachines (snd (create_vm (scripted_env [] [] True) sample_cfg)) = Some ''/id/vm1''
   \<and> fst (create_vm (scripted_env [] [] True) sample_cfg) = Inr PNone
   \<and> returned_id (fst (create_vm (scripted_env [] [] True) sample_cfg)) \<noteq>
       created_id VirtualMachines (snd (create_vm (scripted_env [] [] True) sample_cfg))"
  by (simp add: run_all_succeed step_apis_def created_id_def created_obj_def returned_id_def
        pyval_id_def)

text \<open>
  C4. Whatever the delete calls do, \<open>rollback_resources\<close> goes through every entry it is
  given, in reverse order, and issues the delete call of every entry that has one; a delete
  call that raises does not stop the loop. For each delete call that raised it prints one
  line with the tag, the name and the exception, and it prints no such line otherwise.
\<close>

theorem rollback_continues_after_failure:
  "\<exists>evs. snd (rollback_resources e rg_name created tr) = tr @ evs
      \<and> deleting_lines evs = rev created
      \<and> delete_calls evs = expected_deletes rg_name (rev created)
      \<and> map line_key (failure_lines evs) = map call_key (failed_deletes evs)"
  using rollback_resources_events [of e rg_name created tr] by blast

theorem rollback_continues_after_failure_witness:
  "failed_deletes (snd (rollback_resources (scripted_env [] [PublicIpAddresses] True) ''rg1''
      [(''vnet'', PStr ''vnet1''), (''subnet'', PStr ''subnet1''), (''nsg'', PStr ''nsg1''),
       (''public_ip'', PObj (ResourceObj ''/id/ip1'')), (''nic'', PStr ''nic1'')] [])) =
     [(PublicIpAddresses, PObj (ResourceObj ''/id/ip1''), ProviderError ''Busy'' ''rg1'')]
   \<and> map fst (delete_calls (snd (rollback_resources (scripted_env [] [PublicIpAddresses] True) ''rg1''
      [(''vnet'', PStr ''vnet1''), (''subnet'', PStr ''subnet1''), (''nsg'', PStr ''nsg1''),
       (''public_ip'', PObj (ResourceObj ''/id/ip1'')), (''nic'', PStr ''nic1'')] []))) =
     [NetworkInterfaces, PublicIpAddresses, NetworkSecurityGroups, VirtualNetworks]
   \<and> failure_lines (snd (rollback_resources (scripted_env [] [PublicIpAddresses] True) ''rg1''
      [(''vnet'', PStr ''vnet1''), (''subnet'', PStr ''subnet1''), (''nsg'', PStr ''nsg1''),
       (''public_ip'', PObj (ResourceObj ''/id/ip1'')), (''nic'', PStr ''nic1'')] [])) =
     [(''public_ip'', PObj (ResourceObj ''/id/ip1''), ProviderError ''Busy'' ''rg1'')]"
proof -
  let ?e = "scripted_env [] [PublicIpAddresses] True"
  let ?cs = "[(''vnet'', PStr ''vnet1''), (''subnet'', PStr ''subnet1''), (''nsg'', PStr ''nsg1''),
       (''public_ip'', PObj (ResourceObj ''/id/ip1'')), (''nic'', PStr ''nic1'')]"
  from rollback_continues_after_failure [of ?e "''rg1''" ?cs "[]"]
  have "delete_calls (snd (rollback_resources ?e ''rg1'' ?cs [])) =
          expected_deletes ''rg1'' (rev ?cs)"
    by auto
  then have "map fst (delete_calls (snd (rollback_resources ?e ''rg1'' ?cs []))) =
     [NetworkInterfaces, PublicIpAddresses, NetworkSecurityGroups, VirtualNetworks]"
    by (simp add: rtype_api_def)
  then show ?thesis by (simp add: run_rollback)
qed

text \<open>
  C5 (as the code has it). \<open>rollback_resources\<close> returns \<open>None\<close>, and \<open>create_vm\<close>
  returns nothing but \<open>None\<close> or raises: no report object exists. What the rollback did is
  printed: one line for every entry it goes through, in reverse order, and one failure line
  (tag, name, exception) for exactly the delete calls that raised, so none when they all
  returned.
\<close>

theorem rollback_reports_by_printing:
  "fst (rollback_resources e rg_name created tr) = PNone
   \<and> (\<exists>evs. snd (rollback_resources e rg_name created tr) = tr @ evs
         \<and> deleting_lines evs = rev created
         \<and> map line_key (failure_lines evs) = map call_key (failed_deletes evs)
         \<and> length (failure_lines evs) = length (failed_deletes evs))
   \<and> returned_id (fst (create_vm e' cfg)) = None"
proof -
  from rollback_resources_events [of e rg_name created tr] obtain evs where
    evs: "snd (rollback_resources e rg_name created tr) = tr @ evs"
      "deleting_lines evs = rev created"
      "map line_key (failure_lines evs) = map call_key (failed_deletes evs)"
    by blast
  from arg_cong [OF evs(3), of length]
  have "length (failure_lines evs) = length (failed_deletes evs)" by simp
  moreover have "returned_id (fst (create_vm e' cfg)) = None"
    by (rule create_vm_returns)
  moreover have "fst (rollback_resources e rg_name created tr) = PNone"
    by (simp add: rollback_resources_def)
  ultimately show ?thesis using evs by blast
qed

text \<open>
  The claim as the specification states it, that the rollback returns a report which is then
  part of the failure outcome, fails: a deletion raises, the rollback returns \<open>None\<close>, and
  the outcome of \<open>create_vm\<close> is the exception of the creation call alone.
\<close>

theorem rollback_returns_none_counterexample:
  "failed_deletes (snd (rollback_resources (scripted_env [] [PublicIpAddresses] True) ''rg1''
      [(''vnet'', PStr ''vnet1''), (''subnet'', PStr ''subnet1''), (''nsg'', PStr ''nsg1''),
       (''public_ip'', PObj (ResourceObj ''/id/ip1'')), (''nic'', PStr ''nic1'')] [])) =
     [(PublicIpAddresses, PObj (ResourceObj ''/id/ip1''), ProviderError ''Busy'' ''rg1'')]
   \<and> fst (rollback_resources (scripted_env [] [PublicIpAddresses] True) ''rg1''
      [(''vnet'', PStr ''vnet1''), (''subnet'', PStr ''subnet1''), (''nsg'', PStr ''nsg1''),
       (''public_ip'', PObj (ResourceObj ''/id/ip1'')), (''nic'', PStr ''nic1'')] []) = PNone
   \<and> failed_deletes (snd (create_vm (scripted_env [NetworkInterfaces] [PublicIpAddresses] True) sample_cfg)) =
     [(PublicIpAddresses, PObj (ResourceObj ''/id/ip1''), ProviderError ''Busy'' ''rg1'')]
   \<and> fst (create_vm (scripted_env [NetworkInterfaces] [PublicIpAddresses] True) sample_cfg) = Inl (ProviderError ''QuotaExceeded'' ''nic1'')"
  by (simp add: run_rollback run_nic_fails)

text \<open>
  C6 (as the code has it). A configuration that lacks one of the entries read at the top of
  \<open>create_vm\<close> makes it raise \<open>KeyError\<close> or \<open>TypeError\<close> before anything else happens:
  no call, no rollback, nothing printed. The key file is not read there: it is read after the
  network interface has been created, and when that read fails the five committed entries
  are rolled back and the exception of the read is raised.
\<close>

theorem missing_field_detected_first:
  "(\<not> complete cfg \<longrightarrow>
      (\<exists>ex. create_vm e cfg = (Inl ex, []) \<and> (ex = TypeError \<or> (\<exists>k. ex = KeyError k))))
   \<and> (read_cfg e cfg = Inr r \<and> make_clients e (subscription_id r) = None
        \<and> read_file e (ssh_key_path r) = Inl ex'
        \<and> failed_create (snd (create_vm e cfg)) = None
        \<and> NetworkInterfaces \<in> set (map fst (create_calls (snd (create_vm e cfg)))) \<longrightarrow>
      fst (create_vm e cfg) = Inl ex'
      \<and> map fst (create_calls (snd (create_vm e cfg))) = ResourceGroups # take 5 step_apis
      \<and> map fst (delete_calls (snd (create_vm e cfg))) =
          [NetworkInterfaces, PublicIpAddresses, NetworkSecurityGroups, VirtualNetworks])"
proof (intro conjI impI)
  assume "\<not> complete cfg"
  from incomplete_read [OF this, of e]
  show "\<exists>ex. create_vm e cfg = (Inl ex, []) \<and> (ex = TypeError \<or> (\<exists>k. ex = KeyError k))"
    by (auto simp: create_vm_def)
next
  assume h: "read_cfg e cfg = Inr r \<and> make_clients e (subscription_id r) = None
        \<and> read_file e (ssh_key_path r) = Inl ex'
        \<and> failed_create (snd (create_vm e cfg)) = None
        \<and> NetworkInterfaces \<in> set (map fst (create_calls (snd (create_vm e cfg))))"
  let ?tr0 = "[Print (MsgStarting (vm_name r) (location r))]"
  have cv: "create_vm e cfg = provision e r" using h by (simp add: create_vm_def)
  from h have mc: "make_clients e (subscription_id r) = None"
    and rf: "read_file e (ssh_key_path r) = Inl ex'"
    and nf: "failed_create (snd (create_vm e cfg)) = None"
    and nic: "NetworkInterfaces \<in> set (map fst (create_calls (snd (create_vm e cfg))))"
    by simp_all
  obtain res created tr1 where t: "create_vm_try e r ?tr0 = (res, created, tr1)"
    by (cases "create_vm_try e r ?tr0") auto
  from provision_events [OF mc t] obtain evs where
    p: "provision e r = ((case res of None \<Rightarrow> Inr PNone | Some ex \<Rightarrow> Inl ex), tr1 @ evs)"
    and q: "quiet evs"
    and d: "delete_calls evs =
        (case res of None \<Rightarrow> [] | Some ex \<Rightarrow> expected_deletes (resource_group r) (rev created))"
    by blast
  have nf1: "failed_create tr1 = None"
    using nf cv p by (simp add: failed_create_append split: option.splits)
  have nic1: "NetworkInterfaces \<in> set (map fst (create_calls tr1))"
    using nic cv p q by (simp add: create_calls_append quiet_def)
  obtain ex where res: "res = Some ex"
  proof (cases res)
    case None
    with try_returns_key [of e r ?tr0 created tr1] t rf show ?thesis by simp
  qed simp
  from try_key_failure [OF t [unfolded res] _ _ nf1 nic1]
  have k: "read_file e (ssh_key_path r) = Inl ex" "map fst created = take 5 step_kinds"
    "map fst (create_calls tr1) = ResourceGroups # take 5 step_apis"
    by simp_all
  from k(1) rf have ex: "ex = ex'" by simp
  from try_no_deletes [OF t] have nd: "delete_calls tr1 = []" by simp
  have "map fst (delete_calls evs) = List.map_filter rtype_api (rev (take 5 step_kinds))"
    using d res k(2) by (simp add: expected_deletes_apis rev_map [symmetric])
  also have "\<dots> = [NetworkInterfaces, PublicIpAddresses, NetworkSecurityGroups, VirtualNetworks]"
    by (simp add: step_kinds_def rtype_api_def List.map_filter_simps numeral_eq_Suc)
  finally have dd: "map fst (delete_calls evs) =
      [NetworkInterfaces, PublicIpAddresses, NetworkSecurityGroups, VirtualNetworks]" .
  show "fst (create_vm e cfg) = Inl ex'"
    using cv p res ex by simp
  show "map fst (create_calls (snd (create_vm e cfg))) = ResourceGroups # take 5 step_apis"
    using cv p q k(3) by (simp add: create_calls_append quiet_def)
  show "map fst (delete_calls (snd (create_vm e cfg))) =
          [NetworkInterfaces, PublicIpAddresses, NetworkSecurityGroups, VirtualNetworks]"
    using cv p nd dd by (simp add: delete_calls_append)
qed

theorem missing_field_detected_first_witness:
  "\<not> complete (take 2 sample_cfg)
   \<and> create_vm (scripted_env [] [] False) (take 2 sample_cfg) = (Inl (KeyError ''vm''), [])
   \<and> read_cfg (scripted_env [] [] False) sample_cfg = Inr sample_request
   \<and> make_clients (scripted_env [] [] False) (subscription_id sample_request) = None
   \<and> read_file (scripted_env [] [] False) (ssh_key_path sample_request) = Inl (OSError ''/home/u/.ssh/id_rsa.pub'')
   \<and> failed_create (snd (create_vm (scripted_env [] [] False) sample_cfg)) = None
   \<and> NetworkInterfaces \<in> set (map fst (create_calls (snd (create_vm (scripted_env [] [] False) sample_cfg))))
   \<and> fst (create_vm (scripted_env [] [] False) sample_cfg) = Inl (OSError ''/home/u/.ssh/id_rsa.pub'')
   \<and> map fst (delete_calls (snd (create_vm (scripted_env [] [] False) sample_cfg))) =
       [NetworkInterfaces, PublicIpAddresses, NetworkSecurityGroups, VirtualNetworks]"
proof -
  let ?e = "scripted_env [] [] False"
  have h0: "\<not> complete (take 2 sample_cfg)"
    by (simp add: complete_def required_fields_def has_field_def sample_cfg_def)
  have h1: "read_cfg ?e sample_cfg = Inr sample_request \<and>
      make_clients ?e (subscription_id sample_request) = None \<and>
      read_file ?e (ssh_key_path sample_request) = Inl (OSError ''/home/u/.ssh/id_rsa.pub'') \<and>
      failed_create (snd (create_vm ?e sample_cfg)) = None \<and>
      NetworkInterfaces \<in> set (map fst (create_calls (snd (create_vm ?e sample_cfg))))"
    by (simp add: sample_read run_key_missing) (simp add: scripted_env_def sample_request_def)
  from missing_field_detected_first [of "take 2 sample_cfg" ?e sample_request]
    h0 run_no_vm_section [of ?e]
  have a: "create_vm ?e (take 2 sample_cfg) = (Inl (KeyError ''vm''), [])" by blast
  from missing_field_detected_first
    [of sample_cfg ?e sample_request "OSError ''/home/u/.ssh/id_rsa.pub''"] h1
  have b: "fst (create_vm ?e sample_cfg) = Inl (OSError ''/home/u/.ssh/id_rsa.pub'')
      \<and> map fst (delete_calls (snd (create_vm ?e sample_cfg))) =
          [NetworkInterfaces, PublicIpAddresses, NetworkSecurityGroups, VirtualNetworks]"
    by blast
  from h0 h1 a b show ?thesis by blast
qed

text \<open>
  The claim as the specification states it, with the key material among the inputs checked
  before any call, fails: the configuration is complete and the key file cannot be read; six
  creation calls have been made by then, and four delete calls follow.
\<close>

theorem key_file_read_late_counterexample:
  "complete sample_cfg
   \<and> read_file (scripted_env [] [] False) (ssh_key_path sample_request) = Inl (OSError ''/home/u/.ssh/id_rsa.pub'')
   \<and> fst (create_vm (scripted_env [] [] False) sample_cfg) = Inl (OSError ''/home/u/.ssh/id_rsa.pub'')
   \<and> map fst (create_calls (snd (create_vm (scripted_env [] [] False) sample_cfg))) =
       [ResourceGroups, VirtualNetworks, Subnets, NetworkSecurityGroups, PublicIpAddresses,
        NetworkInterfaces]
   \<and> map fst (delete_calls (snd (create_vm (scripted_env [] [] False) sample_cfg))) =
       [NetworkInterfaces, PublicIpAddresses, NetworkSecurityGroups, VirtualNetworks]"
proof -
  have "complete sample_cfg"
    using read_cfg_complete [OF sample_read] .
  then show ?thesis
    by (simp add: run_key_missing) (simp add: scripted_env_def sample_request_def)
qed

text \<open>
  C7. The claim is that every delete call of the rollback carries the name the resource was
  created under. For the public IP the code does not do that: line 90 rebinds \<open>public_ip\<close>
  to the object the creation returned, line 94 appends that variable, and the rollback hands
  it to \<open>begin_delete\<close>. In this run the public IP is created under the name \<open>ip1\<close> and
  deleted under the object \<open>/id/ip1\<close>; the other delete calls carry the configured names.
\<close>

theorem public_ip_deleted_by_object:
  "public_ip sample_request = ''ip1''
   \<and> read_cfg (scripted_env [NetworkInterfaces] [PublicIpAddresses] True) sample_cfg = Inr sample_request
   \<and> create_call PublicIpAddresses (snd (create_vm (scripted_env [NetworkInterfaces] [PublicIpAddresses] True) sample_cfg)) =
       Some ([''rg1'', ''ip1''], pip_params sample_request)
   \<and> delete_calls (snd (create_vm (scripted_env [NetworkInterfaces] [PublicIpAddresses] True) sample_cfg)) =
       [(PublicIpAddresses, ''rg1'', PObj (ResourceObj ''/id/ip1'')),
        (NetworkSecurityGroups, ''rg1'', PStr ''nsg1''),
        (VirtualNetworks, ''rg1'', PStr ''vnet1'')]"
  by (simp add: run_nic_fails sample_read create_call_def) (simp add: sample_request_def)

text \<open>
  C8 (as the code has it). The subnet is created under the configured name of the virtual
  network, its parent in the call, and not from the object the creation of the virtual
  network returned. The network interface is created with the IP configuration the SDK
  builds from keyword arguments that carry the ids of the objects returned for the subnet and
  for the public IP, and every string of that IP configuration is a string of the call. The
  virtual machine is created with the id of the object returned for the network interface.
\<close>

theorem step_wiring:
  assumes "read_cfg e cfg = Inr r"
  shows "(\<forall>args props. create_call Subnets (snd (create_vm e cfg)) = Some (args, props) \<longrightarrow>
            args = [resource_group r, virtual_network r, sub_network r]
          \<and> props = subnet_params
          \<and> call_strings Subnets (snd (create_vm e cfg)) =
              [resource_group r, virtual_network r, sub_network r, ''10.0.0.0/24''])
       \<and> (\<forall>args props. create_call NetworkInterfaces (snd (create_vm e cfg)) = Some (args, props) \<longrightarrow>
            (\<exists>subnet pip nsg ip_config.
                created_obj Subnets (snd (create_vm e cfg)) = Some subnet
              \<and> created_obj PublicIpAddresses (snd (create_vm e cfg)) = Some pip
              \<and> map_of (ip_configuration_kwargs subnet pip nsg) ''subnet'' =
                  Some (D [(''id'', S (obj_id subnet))])
              \<and> map_of (ip_configuration_kwargs subnet pip nsg) ''public_ip_address'' =
                  Some (D [(''id'', S (obj_id pip))])
              \<and> ip_configuration e (ip_configuration_kwargs subnet pip nsg) = Inr ip_config
              \<and> props = nic_params r ip_config
              \<and> set (param_strings ip_config) \<subseteq>
                  set (call_strings NetworkInterfaces (snd (create_vm e cfg)))))
       \<and> (\<forall>args props. create_call VirtualMachines (snd (create_vm e cfg)) = Some (args, props) \<longrightarrow>
            (\<exists>nic key.
                created_obj NetworkInterfaces (snd (create_vm e cfg)) = Some nic
              \<and> props = vm_parameters r key nic
              \<and> obj_id nic \<in> set (call_strings VirtualMachines (snd (create_vm e cfg)))))"
proof (cases "make_clients e (subscription_id r)")
  case (Some ex)
  with assms have "create_calls (snd (create_vm e cfg)) = []"
    by (simp add: create_vm_def provision_def)
  then show ?thesis by (simp add: create_call_def)
next
  case None
  let ?tr0 = "[Print (MsgStarting (vm_name r) (location r))]"
  let ?T = "snd (create_vm e cfg)"
  have cv: "create_vm e cfg = provision e r" using assms by (simp add: create_vm_def)
  obtain res created tr1 where t: "create_vm_try e r ?tr0 = (res, created, tr1)"
    by (cases "create_vm_try e r ?tr0") auto
  from provision_events [OF None t] obtain evs where
    p: "provision e r = ((case res of None \<Rightarrow> Inr PNone | Some ex \<Rightarrow> Inl ex), tr1 @ evs)"
    and q: "quiet evs" by blast
  have cc: "create_call a ?T = create_call a tr1" for a
    using cv p q by (simp add: create_call_def create_calls_append quiet_def)
  have co: "created_obj a ?T = created_obj a tr1" for a
    using cv p q by (simp add: created_obj_def succeeded_append quiet_def)
  have cs: "call_strings a ?T = call_strings a tr1" for a
    by (simp add: call_strings_def cc)
  from try_wiring [OF t] have
    w1: "\<And>args props. create_call Subnets tr1 = Some (args, props) \<Longrightarrow>
            args = [resource_group r, virtual_network r, sub_network r] \<and> props = subnet_params"
    and w2: "\<And>args props. create_call NetworkInterfaces tr1 = Some (args, props) \<Longrightarrow>
            (\<exists>subnet pip nsg ip_config. created_obj Subnets tr1 = Some subnet
               \<and> created_obj PublicIpAddresses tr1 = Some pip
               \<and> created_obj NetworkSecurityGroups tr1 = Some nsg
               \<and> ip_configuration e (ip_configuration_kwargs subnet pip nsg) = Inr ip_config
               \<and> args = [resource_group r, network_interface r]
               \<and> props = nic_params r ip_config)"
    and w3: "\<And>args props. create_call VirtualMachines tr1 = Some (args, props) \<Longrightarrow>
            (\<exists>nic contents. created_obj NetworkInterfaces tr1 = Some nic
               \<and> read_file e (ssh_key_path r) = Inr contents
               \<and> args = [resource_group r, vm_name r]
               \<and> props = vm_parameters r (strip contents) nic)"
    by simp_all
  have a: "\<forall>args props. create_call Subnets ?T = Some (args, props) \<longrightarrow>
            args = [resource_group r, virtual_network r, sub_network r]
          \<and> props = subnet_params
          \<and> call_strings Subnets ?T =
              [resource_group r, virtual_network r, sub_network r, ''10.0.0.0/24'']"
    using w1 by (auto simp: cc call_strings_def subnet_strings)
  have b: "\<forall>args props. create_call NetworkInterfaces ?T = Some (args, props) \<longrightarrow>
            (\<exists>subnet pip nsg ip_config.
                created_obj Subnets ?T = Some subnet
              \<and> created_obj PublicIpAddresses ?T = Some pip
              \<and> map_of (ip_configuration_kwargs subnet pip nsg) ''subnet'' =
                  Some (D [(''id'', S (obj_id subnet))])
              \<and> map_of (ip_configuration_kwargs subnet pip nsg) ''public_ip_address'' =
                  Some (D [(''id'', S (obj_id pip))])
              \<and> ip_configuration e (ip_configuration_kwargs subnet pip nsg) = Inr ip_config
              \<and> props = nic_params r ip_config
              \<and> set (param_strings ip_config) \<subseteq> set (call_strings NetworkInterfaces ?T))"
  proof (intro allI impI)
    fix args props
    assume "create_call NetworkInterfaces ?T = Some (args, props)"
    then have c: "create_call NetworkInterfaces tr1 = Some (args, props)" by (simp add: cc)
    from w2 [OF c] obtain subnet pip nsg ip_config where
      o: "created_obj Subnets tr1 = Some subnet" "created_obj PublicIpAddresses tr1 = Some pip"
         "ip_configuration e (ip_configuration_kwargs subnet pip nsg) = Inr ip_config"
         "props = nic_params r ip_config"
      by blast
    have "call_strings NetworkInterfaces tr1 = args @ param_strings (nic_params r ip_config)"
      using c o(4) by (simp add: call_strings_def)
    with nic_strings [of ip_config r]
    have sub: "set (param_strings ip_config) \<subseteq> set (call_strings NetworkInterfaces ?T)"
      by (auto simp: cs)
    from o sub ip_configuration_kwargs_ids [of subnet pip nsg]
    show "\<exists>subnet pip nsg ip_config.
                created_obj Subnets ?T = Some subnet
              \<and> created_obj PublicIpAddresses ?T = Some pip
              \<and> map_of (ip_configuration_kwargs subnet pip nsg) ''subnet'' =
                  Some (D [(''id'', S (obj_id subnet))])
              \<and> map_of (ip_configuration_kwargs subnet pip nsg) ''public_ip_address'' =
                  Some (D [(''id'', S (obj_id pip))])
              \<and> ip_configuration e (ip_configuration_kwargs subnet pip nsg) = Inr ip_config
              \<and> props = nic_params r ip_config
              \<and> set (param_strings ip_config) \<subseteq> set (call_strings NetworkInterfaces ?T)"
      unfolding co by blast
  qed
  have c: "\<forall>args props. create_call VirtualMachines ?T = Some (args, props) \<longrightarrow>
            (\<exists>nic key.
                created_obj NetworkInterfaces ?T = Some nic
              \<and> props = vm_parameters r key nic
              \<and> obj_id nic \<in> set (call_strings VirtualMachines ?T))"
  proof (intro allI impI)
    fix args props
    assume "create_call VirtualMachines ?T = Some (args, props)"
    then have c: "create_call VirtualMachines tr1 = Some (args, props)" by (simp add: cc)
    from w3 [OF c] obtain nic contents where
      o: "created_obj NetworkInterfaces tr1 = Some nic"
         "props = vm_parameters r (strip contents) nic"
      by blast
    have "call_strings VirtualMachines tr1 = args @ param_strings (vm_parameters r (strip contents) nic)"
      using c o(2) by (simp add: call_strings_def)
    with vm_strings [of nic r "strip contents"] o
    show "\<exists>nic key.
                created_obj NetworkInterfaces ?T = Some nic
              \<and> props = vm_parameters r key nic
              \<and> obj_id nic \<in> set (call_strings VirtualMachines ?T)"
      by (auto simp: co cs)
  qed
  from a b c show ?thesis by blast
qed

theorem step_wiring_witness:
  "read_cfg (scripted_env [] [] True) sample_cfg = Inr sample_request
   \<and> create_call NetworkInterfaces (snd (create_vm (scripted_env [] [] True) sample_cfg)) =
       Some ([''rg1'', ''nic1''], nic_params sample_request sample_ip_config)
   \<and> created_obj Subnets (snd (create_vm (scripted_env [] [] True) sample_cfg)) = Some (ResourceObj ''/id/subnet1'')
   \<and> created_obj PublicIpAddresses (snd (create_vm (scripted_env [] [] True) sample_cfg)) = Some (ResourceObj ''/id/ip1'')
   \<and> ''/id/subnet1'' \<in> set (call_strings NetworkInterfaces (snd (create_vm (scripted_env [] [] True) sample_cfg)))
   \<and> ''/id/ip1'' \<in> set (call_strings NetworkInterfaces (snd (create_vm (scripted_env [] [] True) sample_cfg)))"
proof -
  let ?e = "scripted_env [] [] True"
  let ?T = "snd (create_vm ?e sample_cfg)"
  have h1: "read_cfg ?e sample_cfg = Inr sample_request"
    by (rule sample_read)
  have c: "create_call NetworkInterfaces ?T =
       Some ([''rg1'', ''nic1''], nic_params sample_request sample_ip_config)"
    by (simp add: run_all_succeed create_call_def)
  have o: "created_obj Subnets ?T = Some (ResourceObj ''/id/subnet1'')"
    "created_obj PublicIpAddresses ?T = Some (ResourceObj ''/id/ip1'')"
    by (simp_all add: run_all_succeed created_obj_def)
  from step_wiring [OF h1] c obtain subnet pip nsg ip_config where
    w: "created_obj Subnets ?T = Some subnet" "created_obj PublicIpAddresses ?T = Some pip"
       "ip_configuration ?e (ip_configuration_kwargs subnet pip nsg) = Inr ip_config"
       "set (param_strings ip_config) \<subseteq> set (call_strings NetworkInterfaces ?T)"
    by blast
  from w(1,2) o have "subnet = ResourceObj ''/id/subnet1''" "pip = ResourceObj ''/id/ip1''"
    by simp_all
  with w(3) have "''/id/subnet1'' \<in> set (param_strings ip_config)
      \<and> ''/id/ip1'' \<in> set (param_strings ip_config)"
    by (auto simp: scripted_env_def ip_configuration_kwargs_def ip_configuration_attributes_def)
  with w(4) have "''/id/subnet1'' \<in> set (call_strings NetworkInterfaces ?T)
      \<and> ''/id/ip1'' \<in> set (call_strings NetworkInterfaces ?T)"
    by blast
  with h1 c o show ?thesis by simp
qed

text \<open>
  The claim as the specification states it, that the subnet step uses the handle returned for
  the virtual network and not just its name, fails: the object returned has the id
  \<open>/id/vnet1\<close>, and the strings of the subnet call are the resource group, the names
  \<open>vnet1\<close> and \<open>subnet1\<close>, and the address prefix.
\<close>

theorem subnet_uses_name_counterexample:
  "created_id VirtualNetworks (snd (create_vm (scripted_env [] [] True) sample_cfg)) = Some ''/id/vnet1''
   \<and> call_strings Subnets (snd (create_vm (scripted_env [] [] True) sample_cfg)) =
       [''rg1'', ''vnet1'', ''subnet1'', ''10.0.0.0/24'']
   \<and> ''/id/vnet1'' \<notin> set (call_strings Subnets (snd (create_vm (scripted_env [] [] True) sample_cfg)))"
  by (simp add: run_all_succeed created_id_def created_obj_def call_strings_def create_call_def
        subnet_strings)

text \<open>
  C9. The resource group is ensured by the first creation call of a run, a
  \<open>create_or_update\<close> on the resource groups, made once and before any step; no tag stands
  for it in \<open>created_resources\<close>, whose tags are those of the steps; and neither
  \<open>create_vm\<close> nor \<open>rollback_resources\<close>, whatever list it is given, issues a delete call
  or any other call on the resource groups.
\<close>

theorem resource_group_outside_rollback:
  "ResourceGroups \<notin> set (map fst (delete_calls (snd (create_vm e cfg))))
   \<and> (\<exists>evs. snd (rollback_resources e' rg_name cs tr) = tr @ evs
         \<and> ResourceGroups \<notin> set (map fst (delete_calls evs)) \<and> create_calls evs = [])
   \<and> (read_cfg e cfg = Inr r \<and> make_clients e (subscription_id r) = None \<longrightarrow>
        (\<exists>rest. create_calls (snd (create_vm e cfg)) =
                  (ResourceGroups, [resource_group r], rg_params r) # rest
               \<and> ResourceGroups \<notin> set (map fst rest)))
   \<and> (\<exists>n. map fst (fst (snd (create_vm_try e r tr0))) = take n step_kinds)
   \<and> rtype_api rtype \<noteq> Some ResourceGroups"
proof -
  have a: "ResourceGroups \<notin> set (map fst (delete_calls (snd (create_vm e cfg))))"
    by (rule create_vm_deletes)
  from rollback_resources_events [of e' rg_name cs tr] obtain evs where
    evs: "snd (rollback_resources e' rg_name cs tr) = tr @ evs" "quiet evs"
      "delete_calls evs = expected_deletes rg_name (rev cs)" by blast
  then have b: "\<exists>evs. snd (rollback_resources e' rg_name cs tr) = tr @ evs
         \<and> ResourceGroups \<notin> set (map fst (delete_calls evs)) \<and> create_calls evs = []"
    using expected_deletes_no_rg [of rg_name "rev cs"] by (auto simp: quiet_def)
  have c: "read_cfg e cfg = Inr r \<and> make_clients e (subscription_id r) = None \<longrightarrow>
        (\<exists>rest. create_calls (snd (create_vm e cfg)) =
                  (ResourceGroups, [resource_group r], rg_params r) # rest
               \<and> ResourceGroups \<notin> set (map fst rest))"
  proof
    assume h: "read_cfg e cfg = Inr r \<and> make_clients e (subscription_id r) = None"
    let ?tr0 = "[Print (MsgStarting (vm_name r) (location r))]"
    have cv: "create_vm e cfg = provision e r" using h by (simp add: create_vm_def)
    obtain res created tr1 where t: "create_vm_try e r ?tr0 = (res, created, tr1)"
      by (cases "create_vm_try e r ?tr0") auto
    from h have mc: "make_clients e (subscription_id r) = None" by simp
    from provision_events [OF mc t] obtain evs where
      p: "provision e r = ((case res of None \<Rightarrow> Inr PNone | Some ex \<Rightarrow> Inl ex), tr1 @ evs)"
      and q: "quiet evs" by blast
    from try_first_call [OF t] obtain rest where
      "create_calls tr1 = (ResourceGroups, [resource_group r], rg_params r) # rest"
      "ResourceGroups \<notin> set (map fst rest)" by auto
    with cv p q show "\<exists>rest. create_calls (snd (create_vm e cfg)) =
                  (ResourceGroups, [resource_group r], rg_params r) # rest
               \<and> ResourceGroups \<notin> set (map fst rest)"
      by (simp add: create_calls_append quiet_def)
  qed
  have d: "\<exists>n. map fst (fst (snd (create_vm_try e r tr0))) = take n step_kinds"
    using try_created_kinds [of e r tr0] by (cases "create_vm_try e r tr0") auto
  have f: "rtype_api rtype \<noteq> Some ResourceGroups"
    by (simp add: rtype_api_def)
  from a b c d f show ?thesis by blast
qed

theorem resource_group_outside_rollback_witness:
  "read_cfg (scripted_env [NetworkInterfaces] [PublicIpAddresses] True) sample_cfg = Inr sample_request
   \<and> make_clients (scripted_env [NetworkInterfaces] [PublicIpAddresses] True) (subscription_id sample_request) = None
   \<and> hd (create_calls (snd (create_vm (scripted_env [NetworkInterfaces] [PublicIpAddresses] True) sample_cfg))) =
       (ResourceGroups, [''rg1''], rg_params sample_request)
   \<and> ResourceGroups \<notin> set (map fst (delete_calls (snd (create_vm (scripted_env [NetworkInterfaces] [PublicIpAddresses] True) sample_cfg))))"
proof -
  let ?e = "scripted_env [NetworkInterfaces] [PublicIpAddresses] True"
  have h: "read_cfg ?e sample_cfg = Inr sample_request
      \<and> make_clients ?e (subscription_id sample_request) = None"
    by (simp add: sample_read) (simp add: scripted_env_def)
  from resource_group_outside_rollback [of ?e sample_cfg ?e "''rg1''" "[]" "[]" sample_request "[]" "''vnet''"] h
  have "\<exists>rest. create_calls (snd (create_vm ?e sample_cfg)) =
          (ResourceGroups, [resource_group sample_request], rg_params sample_request) # rest"
    and "ResourceGroups \<notin> set (map fst (delete_calls (snd (create_vm ?e sample_cfg))))"
    by blast+
  with h show ?thesis by (auto simp: sample_request_def)
qed

text \<open>
  C10. When the call that ensures the resource group raises, \<open>created_resources\<close> is still
  empty: the rollback goes through no entry and issues no delete call, and \<open>create_vm\<close>
  raises the exception of that call.
\<close>

theorem ensure_failure_empty_rollback:
  assumes "read_cfg e cfg = Inr r"
      and "make_clients e (subscription_id r) = None"
      and "create_or_update e
             [Print (MsgStarting (vm_name r) (location r)), Print (MsgEnsuringRG (resource_group r))]
             ResourceGroups [resource_group r] (rg_params r) = Inl ex"
  shows "create_vm_try e r [Print (MsgStarting (vm_name r) (location r))] =
           (Some ex, [],
            [Print (MsgStarting (vm_name r) (location r)), Print (MsgEnsuringRG (resource_group r)),
             Create ResourceGroups [resource_group r] (rg_params r) (Inl ex)])
       \<and> create_vm e cfg =
           (Inl ex,
            [Print (MsgStarting (vm_name r) (location r)), Print (MsgEnsuringRG (resource_group r)),
             Create ResourceGroups [resource_group r] (rg_params r) (Inl ex),
             Print (MsgError ex), Print MsgRollingBack, Print MsgRollbackComplete])
       \<and> delete_calls (snd (create_vm e cfg)) = []
       \<and> deleting_lines (snd (create_vm e cfg)) = []"
  using assms
  by (simp add: create_vm_def provision_def create_vm_try_def invoke_create_def
        rollback_resources_def Let_def)

theorem ensure_failure_empty_rollback_witness:
  "read_cfg (scripted_env [ResourceGroups] [] True) sample_cfg = Inr sample_request
   \<and> make_clients (scripted_env [ResourceGroups] [] True) (subscription_id sample_request) = None
   \<and> create_or_update (scripted_env [ResourceGroups] [] True)
       [Print (MsgStarting (vm_name sample_request) (location sample_request)),
        Print (MsgEnsuringRG (resource_group sample_request))]
       ResourceGroups [resource_group sample_request] (rg_params sample_request) =
       Inl (ProviderError ''QuotaExceeded'' ''rg1'')
   \<and> fst (create_vm (scripted_env [ResourceGroups] [] True) sample_cfg) = Inl (ProviderError ''QuotaExceeded'' ''rg1'')
   \<and> delete_calls (snd (create_vm (scripted_env [ResourceGroups] [] True) sample_cfg)) = []"
proof -
  let ?e = "scripted_env [ResourceGroups] [] True"
  have h1: "read_cfg ?e sample_cfg = Inr sample_request"
    by (rule sample_read)
  have h2: "make_clients ?e (subscription_id sample_request) = None"
    by (simp add: scripted_env_def)
  have h3: "create_or_update ?e
       [Print (MsgStarting (vm_name sample_request) (location sample_request)),
        Print (MsgEnsuringRG (resource_group sample_request))]
       ResourceGroups [resource_group sample_request] (rg_params sample_request) =
       Inl (ProviderError ''QuotaExceeded'' ''rg1'')"
    by (simp add: scripted_env_def sample_request_def)
  from ensure_failure_empty_rollback [OF h1 h2 h3] h1 h2 h3 show ?thesis by simp
qed

end
